theory Spec2Isabelle
  imports Complex_Main "HOL-Library.Word" "HOL-Library.Multiset" "HOL-Library.Log_Nat"
begin

section \<open>Machine integers\<close>

text \<open>
  Both Lambda functions are built for \<open>arm64\<close> (\<open>architectures = ["arm64"]\<close> in
  \<open>lambda.tf\<close>), so Go's \<open>int\<close> has 64 bits, as \<open>int64\<close> has. Addition wraps around,
  comparisons are signed (\<open><s\<close>, \<open>\<le>s\<close>), and the conversion \<open>int64(x)\<close> of an \<open>int\<close>
  is the identity.
\<close>

type_synonym go_int = "64 word"
type_synonym int64 = "64 word"

section \<open>float64\<close>

text \<open>
  A \<open>float64\<close> is modelled by the rational number it denotes: every finite \<open>float64\<close> is
  one, and the two zeros are the same number. \<open>round53\<close> is the rounding of IEEE 754
  binary64, to the nearest number of 53 significant bits, a tie going to the even
  significand: \<open>floorLog2 a q\<close> is the binary exponent of \<open>a / q\<close>, \<open>roundHalfEven n d\<close> the
  integer nearest to \<open>n / d\<close>. The conversion \<open>float64(n)\<close> rounds the integer, the division
  rounds the exact quotient.

  The exponent range of binary64 is left out. Every \<open>float64\<close> of the program is the
  conversion of a 64-bit integer or the quotient of two such conversions by a divisor that
  is not zero, so its magnitude is 0 or lies between \<open>2^-64\<close> and \<open>2^64\<close>: no overflow,
  no subnormal, no infinity and no NaN arises. \<open>roundRatio p q\<close> rounds \<open>p / q\<close> for a
  positive \<open>q\<close>. At a divisor 0, where binary64 gives an infinity or NaN, \<open>float64_div\<close>
  has no number to give and gives 0; the program never divides by 0.
\<close>

type_synonym float64 = rat

definition roundHalfEven :: "int \<Rightarrow> int \<Rightarrow> int" where
  "roundHalfEven n d =
     (let f = n div d; r = n mod d
      in if 2 * r < d then f else if d < 2 * r then f + 1 else if even f then f else f + 1)"

definition floorLog2 :: "int \<Rightarrow> int \<Rightarrow> int" where
  "floorLog2 a q =
     (let k = bitlen a - bitlen q
      in if (if 0 \<le> k then q * 2 ^ nat k \<le> a else q \<le> a * 2 ^ nat (- k)) then k else k - 1)"

definition roundRatio :: "int \<Rightarrow> int \<Rightarrow> float64" where
  "roundRatio p q =
     (if p = 0 then 0
      else (let a = \<bar>p\<bar>; e = floorLog2 a q - 52;
                m = (if 0 \<le> e then roundHalfEven a (q * 2 ^ nat e)
                     else roundHalfEven (a * 2 ^ nat (- e)) q)
            in if 0 \<le> e then of_int (sgn p * m) * 2 ^ nat e
               else of_int (sgn p * m) / 2 ^ nat (- e)))"

definition round53 :: "rat \<Rightarrow> float64" where
  "round53 x = (case quotient_of x of (p, q) \<Rightarrow> roundRatio p q)"

definition float64_of_int :: "int \<Rightarrow> float64" where
  "float64_of_int n = roundRatio n 1"

definition float64_div :: "float64 \<Rightarrow> float64 \<Rightarrow> float64" where
  "float64_div a b = round53 (a / b)"

section \<open>internal/models/events.go\<close>

text \<open>
  A \<open>time.Time\<close> is an instant, in nanoseconds since the Unix epoch. The records keep the
  order and the field names of the source; where two structs share a field name the
  earlier one is written qualified (\<open>ProcessingJob.JobID\<close>, \<open>ProcessingResult.ErrorCount\<close>).
\<close>

type_synonym time = int
type_synonym error = string

record ProcessingJob =
  JobID :: string
  Bucket :: string
  Key :: string
  Size :: int64
  ContentType :: string
  ReceivedAt :: time
  ValidatedAt :: time

record ProcessingResult =
  JobID :: string
  Status :: string
  LineCount :: go_int
  ErrorCount :: go_int
  WarnCount :: go_int
  InfoCount :: go_int
  AvgResponseTimeMs :: float64
  MaxResponseTimeMs :: go_int
  UniqueUsers :: go_int
  UniqueEndpoints :: go_int
  ProcessingTimeMs :: int64
  FileSizeBytes :: int64
  StartedAt :: time
  CompletedAt :: time
  ErrorMessage :: string
  ExpiresAt :: int64

record LogEntry =
  Timestamp :: string
  Level :: string
  Endpoint :: string
  ResponseTimeMs :: go_int
  StatusCode :: go_int
  UserID :: string
  Message :: string

text \<open>
  The two \<open>map[string]struct{}\<close> are sets of strings, \<open>map[int]int\<close> is a partial map;
  reading an absent key of the latter gives 0, which \<open>count_of\<close> writes out.
\<close>

record LogAggregation =
  TotalLines :: go_int
  ProcessedLines :: go_int
  ErrorCount :: go_int
  WarnCount :: go_int
  InfoCount :: go_int
  DebugCount :: go_int
  TotalResponseMs :: int64
  MaxResponseMs :: go_int
  UniqueUsers :: "string set"
  UniqueEndpoints :: "string set"
  StatusCodeCounts :: "go_int \<rightharpoonup> go_int"

definition NewLogAggregation :: LogAggregation where
  "NewLogAggregation =
     \<lparr>TotalLines = 0, ProcessedLines = 0, ErrorCount = 0, WarnCount = 0, InfoCount = 0,
      DebugCount = 0, TotalResponseMs = 0, MaxResponseMs = 0, UniqueUsers = {},
      UniqueEndpoints = {}, StatusCodeCounts = Map.empty\<rparr>"

definition count_of :: "(go_int \<rightharpoonup> go_int) \<Rightarrow> go_int \<Rightarrow> go_int" where
  "count_of m k = (case m k of None \<Rightarrow> 0 | Some c \<Rightarrow> c)"

section \<open>internal/processor/logparser.go\<close>

text \<open>
  A \<open>LogParser\<close> holds nothing but its aggregation, so the parser state that the methods
  thread is the \<open>LogAggregation\<close> itself.

  \<open>processEntry\<close>: the \<open>switch\<close> on the level, then the five updates in source order.
\<close>

definition processEntry :: "LogAggregation \<Rightarrow> LogEntry \<Rightarrow> LogAggregation" where
  "processEntry p entry =
     (let a = (if Level entry = ''ERROR'' then p\<lparr>ErrorCount := ErrorCount p + 1\<rparr>
               else if Level entry = ''WARN'' then p\<lparr>WarnCount := WarnCount p + 1\<rparr>
               else if Level entry = ''INFO'' then p\<lparr>InfoCount := InfoCount p + 1\<rparr>
               else if Level entry = ''DEBUG'' then p\<lparr>DebugCount := DebugCount p + 1\<rparr>
               else p);
          a = a\<lparr>TotalResponseMs := TotalResponseMs a + ResponseTimeMs entry\<rparr>;
          a = (if MaxResponseMs a <s ResponseTimeMs entry
               then a\<lparr>MaxResponseMs := ResponseTimeMs entry\<rparr> else a);
          a = (if UserID entry \<noteq> []
               then a\<lparr>UniqueUsers := insert (UserID entry) (UniqueUsers a)\<rparr> else a);
          a = (if Endpoint entry \<noteq> []
               then a\<lparr>UniqueEndpoints := insert (Endpoint entry) (UniqueEndpoints a)\<rparr> else a);
          a = (if 0 <s StatusCode entry
               then a\<lparr>StatusCodeCounts := (StatusCodeCounts a)
                      (StatusCode entry \<mapsto> count_of (StatusCodeCounts a) (StatusCode entry) + 1)\<rparr>
               else a)
      in a)"

text \<open>
  \<open>json.Unmarshal\<close> belongs to Go's standard library, so the decoder of one line into a
  \<open>LogEntry\<close> is a parameter \<open>unm\<close>: \<open>None\<close> when \<open>Unmarshal\<close> returns an error. The
  variable \<open>entry\<close> is declared inside the loop body, so nothing is carried from one line
  to the next.

  \<open>bufio.Scanner\<close> belongs to the standard library too. What it yields for a reader is the
  model's input: the tokens that the successive \<open>Scan()\<close> calls return, in order, and the
  error that \<open>Err()\<close> reports once \<open>Scan()\<close> has returned false (\<open>None\<close> at a clean end of
  input; a read error or a line beyond the 1 MiB buffer otherwise).
\<close>

record Reader =
  tokens :: "string list"
  scanErr :: "string option"

text \<open>One iteration of the \<open>for scanner.Scan()\<close> loop, on the pair of \<open>lineNum\<close> and the
  aggregation.\<close>

definition scanStep ::
  "(string \<Rightarrow> LogEntry option) \<Rightarrow> string \<Rightarrow> go_int \<times> LogAggregation \<Rightarrow> go_int \<times> LogAggregation"
where
  "scanStep unm line s =
     (case s of (lineNum, p) \<Rightarrow>
        (let lineNum = lineNum + 1 in
         if length line = 0 then (lineNum, p)
         else (case unm line of
                 None \<Rightarrow> (lineNum, p\<lparr>WarnCount := WarnCount p + 1\<rparr>)
               | Some entry \<Rightarrow>
                   (let p = processEntry p entry
                    in (lineNum, p\<lparr>ProcessedLines := ProcessedLines p + 1\<rparr>)))))"

fun scanLoop ::
  "(string \<Rightarrow> LogEntry option) \<Rightarrow> string list \<Rightarrow> go_int \<times> LogAggregation \<Rightarrow> go_int \<times> LogAggregation"
where
  "scanLoop unm [] s = s"
| "scanLoop unm (line # rest) s = scanLoop unm rest (scanStep unm line s)"

text \<open>
  \<open>Parse\<close> returns the pair of its Go result (\<open>Inl\<close> the error message, \<open>Inr\<close> the
  aggregation) and the parser state it leaves behind. On success the returned pointer is
  \<open>p.aggregation\<close> itself; on a scanner error the lines already consumed stay counted in
  the state and \<open>TotalLines\<close> is not set.
\<close>

definition Parse ::
  "(string \<Rightarrow> LogEntry option) \<Rightarrow> LogAggregation \<Rightarrow> Reader
     \<Rightarrow> (string + LogAggregation) \<times> LogAggregation"
where
  "Parse unm p reader =
     (case scanLoop unm (tokens reader) (0, p) of (lineNum, p) \<Rightarrow>
        (case scanErr reader of
           Some err \<Rightarrow> (Inl (''error scanning file: '' @ err), p)
         | None \<Rightarrow> (let p = p\<lparr>TotalLines := lineNum\<rparr> in (Inr p, p))))"

text \<open>
  \<open>GetAverageResponseTime\<close>: two conversions to \<open>float64\<close>, each rounded, and their
  \<open>float64\<close> quotient, rounded again.
\<close>

definition GetAverageResponseTime :: "LogAggregation \<Rightarrow> float64" where
  "GetAverageResponseTime p =
     (if ProcessedLines p = 0 then 0
      else float64_div (float64_of_int (sint (TotalResponseMs p)))
             (float64_of_int (sint (ProcessedLines p))))"

section \<open>The outside world\<close>

text \<open>
  The AWS clients, the clock and standard output are outside the repository. Every call
  to one of them is recorded, in order, as an \<open>effect\<close> of the \<open>world\<close>, together with
  the answer it got; the answers themselves come from an \<open>env\<close>, a record of functions of
  the request. \<open>ticks\<close> counts the readings of the clock, so that successive readings may
  differ. A \<open>Printf\<close> is recorded as its format string and its arguments.
\<close>

datatype arg = S string | I int | F float64

record MetricValue =
  Value :: float64
  Unit :: string

record HeadObjectOutput =
  ContentLength :: "int64 option"
  ContentType :: "string option"

datatype effect =
    Printf string "arg list"
  | S3GetObject string string
  | S3HeadObject string string
  | BodyClose
  | DDBPutItem ProcessingResult "error option"
  | SQSSendMessage string string "error option"
  | CWPutMetricData time "(string \<times> MetricValue) list" "error option"

record world =
  effects :: "effect list"
  ticks :: nat

record env =
  now :: "nat \<Rightarrow> time"
  metricsCollector :: bool
  unmarshalJob :: "string \<Rightarrow> error + ProcessingJob"
  unmarshalEntry :: "string \<Rightarrow> LogEntry option"
  getObject :: "string \<Rightarrow> string \<Rightarrow> error + Reader"
  marshalMap :: "ProcessingResult \<Rightarrow> error option"
  putItem :: "ProcessingResult \<Rightarrow> error option"
  putMetricData :: "(string \<times> MetricValue) list \<Rightarrow> error option"
  headObject :: "string \<Rightarrow> string \<Rightarrow> error + HeadObjectOutput"
  marshalJob :: "ProcessingJob \<Rightarrow> error + string"
  sendMessage :: "string \<Rightarrow> string \<Rightarrow> error option"

definition emit :: "world \<Rightarrow> effect \<Rightarrow> world" where
  "emit w e = w\<lparr>effects := effects w @ [e]\<rparr>"

definition timeNow :: "env \<Rightarrow> world \<Rightarrow> time \<times> world" where
  "timeNow env w = (now env (ticks w), w\<lparr>ticks := Suc (ticks w)\<rparr>)"

text \<open>
  \<open>time.Since(t).Milliseconds()\<close>: the duration is an \<open>int64\<close> of nanoseconds that
  saturates, and the division by \<open>1e6\<close> truncates towards zero.
  \<open>t.Add(7 * 24 * time.Hour).Unix()\<close>: whole seconds, rounded down.
\<close>

definition Duration :: "time \<Rightarrow> time \<Rightarrow> int" where
  "Duration t0 t1 = max (- (2 ^ 63)) (min (2 ^ 63 - 1) (t1 - t0))"

definition Milliseconds :: "int \<Rightarrow> int64" where
  "Milliseconds d = word_of_int (sgn d * (\<bar>d\<bar> div 1000000))"

definition expiryUnix :: "time \<Rightarrow> int64" where
  "expiryUnix t = word_of_int ((t + 7 * 24 * 3600 * 1000000000) div 1000000000)"

section \<open>internal/metrics/collector.go\<close>

definition LatencyMs :: "float64 \<Rightarrow> MetricValue" where
  "LatencyMs v = \<lparr>Value = v, Unit = ''Milliseconds''\<rparr>"

definition Count :: "float64 \<Rightarrow> MetricValue" where
  "Count v = \<lparr>Value = v, Unit = ''Count''\<rparr>"

text \<open>
  \<open>EmitBatch\<close>: nothing for an empty map; otherwise one clock reading, then one
  \<open>PutMetricData\<close> call for each block of 1000 metrics, stopping at the first error.
  The metrics are listed in the order the map literal gives them.
\<close>

function putMetricBlocks ::
  "env \<Rightarrow> world \<Rightarrow> time \<Rightarrow> (string \<times> MetricValue) list \<Rightarrow> error option \<times> world"
where
  "putMetricBlocks env w timestamp data =
     (if data = [] then (None, w)
      else (let block = take 1000 data;
                res = putMetricData env block;
                w = emit w (CWPutMetricData timestamp block res)
            in case res of
                 Some err \<Rightarrow> (Some (''failed to emit batch metrics: '' @ err), w)
               | None \<Rightarrow> putMetricBlocks env w timestamp (drop 1000 data)))"
  by pat_completeness auto
termination
  by (relation "measure (\<lambda>(env, w, timestamp, data). length data)") auto

declare putMetricBlocks.simps [simp del]

definition EmitBatch ::
  "env \<Rightarrow> world \<Rightarrow> (string \<times> MetricValue) list \<Rightarrow> error option \<times> world"
where
  "EmitBatch env w metrics =
     (if length metrics = 0 then (None, w)
      else (case timeNow env w of (timestamp, w) \<Rightarrow> putMetricBlocks env w timestamp metrics))"

section \<open>cmd/worker/main.go\<close>

definition saveResult :: "env \<Rightarrow> world \<Rightarrow> ProcessingResult \<Rightarrow> error option \<times> world" where
  "saveResult env w result =
     (case marshalMap env result of
        Some err \<Rightarrow> (Some (''failed to marshal result: '' @ err), w)
      | None \<Rightarrow> (putItem env result, emit w (DDBPutItem result (putItem env result))))"

text \<open>
  The \<open>ProcessingResult\<close> literal of \<open>saveFailedResult\<close>, given the three clock readings:
  the fields it leaves out are zero.
\<close>

definition failedResult :: "ProcessingJob \<Rightarrow> time \<Rightarrow> time \<Rightarrow> time \<Rightarrow> time \<Rightarrow> error \<Rightarrow> ProcessingResult" where
  "failedResult job startTime t1 t2 t3 processErr =
               \<lparr>JobID = ProcessingJob.JobID job, Status = ''failed'', LineCount = 0,
                ProcessingResult.ErrorCount = 0, ProcessingResult.WarnCount = 0,
                ProcessingResult.InfoCount = 0, AvgResponseTimeMs = 0, MaxResponseTimeMs = 0,
                ProcessingResult.UniqueUsers = 0, ProcessingResult.UniqueEndpoints = 0,
                ProcessingTimeMs = Milliseconds (Duration startTime t1),
                FileSizeBytes = Size job, StartedAt = startTime, CompletedAt = t2,
                ErrorMessage = processErr, ExpiresAt = expiryUnix t3\<rparr>"

text \<open>
  \<open>saveFailedResult\<close>: the struct literal reads the clock three times, in field order.
  The error of \<open>saveResult\<close> is printed and dropped, the result of \<open>EmitBatch\<close> is
  dropped, and \<open>processErr\<close> is returned.
\<close>

definition saveFailedResult ::
  "env \<Rightarrow> world \<Rightarrow> ProcessingJob \<Rightarrow> time \<Rightarrow> error \<Rightarrow> error option \<times> world"
where
  "saveFailedResult env w job startTime processErr =
     (case timeNow env w of (t1, w) \<Rightarrow>
      case timeNow env w of (t2, w) \<Rightarrow>
      case timeNow env w of (t3, w) \<Rightarrow>
        (let result = failedResult job startTime t1 t2 t3 processErr
         in case saveResult env w result of (res, w) \<Rightarrow>
           (let w = (case res of
                       Some err \<Rightarrow> emit w (Printf ''Failed to save error result: %v\<newline>'' [S err])
                     | None \<Rightarrow> w);
                w = (if metricsCollector env
                     then snd (EmitBatch env w [(''WorkerFailureCount'', Count 1)]) else w)
            in (Some processErr, w))))"

text \<open>The \<open>ProcessingResult\<close> literal of a completed job, given the three clock readings.\<close>

definition completedResult ::
  "ProcessingJob \<Rightarrow> LogAggregation \<Rightarrow> LogAggregation \<Rightarrow> time \<Rightarrow> time \<Rightarrow> time \<Rightarrow> time
     \<Rightarrow> ProcessingResult"
where
  "completedResult job aggregation parser startTime t1 t2 t3 =
     \<lparr>JobID = ProcessingJob.JobID job, Status = ''completed'',
      LineCount = TotalLines aggregation,
      ProcessingResult.ErrorCount = LogAggregation.ErrorCount aggregation,
      ProcessingResult.WarnCount = LogAggregation.WarnCount aggregation,
      ProcessingResult.InfoCount = LogAggregation.InfoCount aggregation,
      AvgResponseTimeMs = GetAverageResponseTime parser,
      MaxResponseTimeMs = MaxResponseMs aggregation,
      ProcessingResult.UniqueUsers = word_of_nat (card (LogAggregation.UniqueUsers aggregation)),
      ProcessingResult.UniqueEndpoints =
        word_of_nat (card (LogAggregation.UniqueEndpoints aggregation)),
      ProcessingTimeMs = Milliseconds (Duration startTime t1),
      FileSizeBytes = Size job, StartedAt = startTime, CompletedAt = t2,
      ErrorMessage = [], ExpiresAt = expiryUnix t3\<rparr>"

text \<open>
  \<open>processMessage\<close>, on the body of the SQS message. A fresh parser is made for every
  message. The deferred \<open>Body.Close()\<close> runs last on every path after a successful
  \<open>GetObject\<close>.
\<close>

definition closing :: "error option \<times> world \<Rightarrow> error option \<times> world" where
  "closing r = (case r of (res, w) \<Rightarrow> (res, emit w BodyClose))"

definition processMessage :: "env \<Rightarrow> world \<Rightarrow> string \<Rightarrow> error option \<times> world" where
  "processMessage env w body =
     (case timeNow env w of (startTime, w) \<Rightarrow>
      (case unmarshalJob env body of
        Inl err \<Rightarrow> (Some (''failed to unmarshal job: '' @ err), w)
      | Inr job \<Rightarrow>
          (let w = emit w (Printf ''Processing job %s: %s/%s\<newline>''
                             [S (ProcessingJob.JobID job), S (Bucket job), S (Key job)]);
               w = emit w (S3GetObject (Bucket job) (Key job))
           in case getObject env (Bucket job) (Key job) of
                Inl err \<Rightarrow>
                  saveFailedResult env w job startTime (''failed to get S3 object: '' @ err)
              | Inr getRespBody \<Rightarrow>
                  closing
                   (case Parse (unmarshalEntry env) NewLogAggregation getRespBody of
                      (Inl err, parser) \<Rightarrow>
                        saveFailedResult env w job startTime (''failed to parse logs: '' @ err)
                    | (Inr aggregation, parser) \<Rightarrow>
                       (case timeNow env w of (t1, w) \<Rightarrow>
                        case timeNow env w of (t2, w) \<Rightarrow>
                        case timeNow env w of (t3, w) \<Rightarrow>
                          (let result = completedResult job aggregation parser startTime t1 t2 t3
                           in case saveResult env w result of
                                (Some err, w) \<Rightarrow> (Some (''failed to save result: '' @ err), w)
                              | (None, w) \<Rightarrow>
                                 (let w = (if metricsCollector env
                                           then snd (EmitBatch env w
                                             [(''WorkerProcessingLatencyMs'',
                                                 LatencyMs (float64_of_int (sint (ProcessingTimeMs result)))),
                                              (''WorkerLinesProcessed'',
                                                 Count (float64_of_int (sint (LineCount result)))),
                                              (''WorkerErrorsFound'',
                                                 Count (float64_of_int
                                                   (sint (ProcessingResult.ErrorCount result)))),
                                              (''WorkerSuccessCount'', Count 1)])
                                           else w);
                                      w = emit w (Printf ''Completed job %s: %d lines in %dms\<newline>''
                                            [S (JobID result), I (sint (LineCount result)),
                                             I (sint (ProcessingTimeMs result))])
                                  in (None, w))))))))"

text \<open>The worker's \<open>handler\<close>, on the bodies of the batch's messages.\<close>

fun worker_handler :: "env \<Rightarrow> world \<Rightarrow> string list \<Rightarrow> error option \<times> world" where
  "worker_handler env w [] = (None, w)"
| "worker_handler env w (record # rest) =
     (case processMessage env w record of
        (Some err, w) \<Rightarrow> (Some err, emit w (Printf ''Error processing message: %v\<newline>'' [S err]))
      | (None, w) \<Rightarrow> worker_handler env w rest)"

section \<open>cmd/trigger/main.go\<close>

text \<open>
  The three functions of package \<open>strings\<close> that \<open>processRecord\<close> calls, on byte strings.
  \<open>ToLower\<close> lowers the ASCII letters only: its one use is the test for the suffix
  \<open>.json\<close>, and no letter outside ASCII has \<open>j\<close>, \<open>s\<close>, \<open>o\<close> or \<open>n\<close> as its lower case.
  \<open>Split\<close> is \<open>strings.Split\<close> for a separator of one character: a string with \<open>n\<close>
  separators gives \<open>n + 1\<close> pieces, the empty string gives one empty piece.
\<close>

definition lowerASCII :: "char \<Rightarrow> char" where
  "lowerASCII c =
     (let n = (of_char c :: nat) in if 65 \<le> n \<and> n \<le> 90 then char_of (n + 32) else c)"

definition ToLower :: "string \<Rightarrow> string" where
  "ToLower s = map lowerASCII s"

definition HasSuffix :: "string \<Rightarrow> string \<Rightarrow> bool" where
  "HasSuffix s suffix =
     (length suffix \<le> length s \<and> drop (length s - length suffix) s = suffix)"

fun Split :: "string \<Rightarrow> char \<Rightarrow> string list" where
  "Split [] sep = [[]]"
| "Split (c # cs) sep =
     (if c = sep then [] # Split cs sep
      else (case Split cs sep of [] \<Rightarrow> [[c]] | part # parts \<Rightarrow> (c # part) # parts))"

text \<open>The fields of an \<open>events.S3EventRecord\<close> that the trigger reads.\<close>

record S3EventRecord =
  BucketName :: string
  ObjectKey :: string
  EventTime :: time

text \<open>
  A call either returns, with an error or \<open>nil\<close>, or panics: \<open>*headResp.ContentLength\<close>
  dereferences a pointer that is \<open>nil\<close> when the answer carries no length.
  \<open>aws.ToString\<close> turns a \<open>nil\<close> content type into the empty string.
\<close>

datatype outcome = Returned "error option" | Panicked

definition ToString :: "string option \<Rightarrow> string" where
  "ToString v = (case v of None \<Rightarrow> [] | Some s \<Rightarrow> s)"

definition processRecord :: "env \<Rightarrow> world \<Rightarrow> S3EventRecord \<Rightarrow> outcome \<times> world" where
  "processRecord env w record =
     (case timeNow env w of (startTime, w) \<Rightarrow>
      (let bucket = BucketName record; key = ObjectKey record in
       if \<not> HasSuffix (ToLower key) ''.json''
       then (Returned None, emit w (Printf ''Skipping non-JSON file: %s\<newline>'' [S key]))
       else
        (let w = emit w (S3HeadObject bucket key) in
         case headObject env bucket key of
           Inl err \<Rightarrow>
             (Returned (Some (''failed to head object '' @ bucket @ ''/'' @ key @ '': '' @ err)), w)
         | Inr headResp \<Rightarrow>
            (let parts = Split key (CHR ''_'') in
             if 3 \<le> length parts \<and> parts ! 0 = ''logs/test''
             then
              (let jobID = parts ! 1;
                   w = emit w (Printf ''Extracted test_id '%s' from key\<newline>'' [S jobID])
               in case ContentLength headResp of
                    None \<Rightarrow> (Panicked, w)
                  | Some contentLength \<Rightarrow>
                     (case timeNow env w of (validatedAt, w) \<Rightarrow>
                      (let job = \<lparr>ProcessingJob.JobID = jobID, Bucket = bucket, Key = key,
                                  Size = contentLength, ContentType = ToString (ContentType headResp),
                                  ReceivedAt = EventTime record, ValidatedAt = validatedAt\<rparr>
                       in case marshalJob env job of
                            Inl err \<Rightarrow> (Returned (Some (''failed to marshal job: '' @ err)), w)
                          | Inr jobBytes \<Rightarrow>
                             (let res = sendMessage env jobBytes (ProcessingJob.JobID job);
                                  w = emit w (SQSSendMessage jobBytes (ProcessingJob.JobID job) res)
                              in case res of
                                   Some err \<Rightarrow>
                                     (Returned (Some (''failed to send SQS message: '' @ err)), w)
                                 | None \<Rightarrow>
                                    (case timeNow env w of (t, w) \<Rightarrow>
                                     (let validationLatency =
                                            float64_of_int (sint (Milliseconds (Duration startTime t)));
                                          w = (if metricsCollector env
                                               then snd (EmitBatch env w
                                                 [(''TriggerValidationLatencyMs'',
                                                     LatencyMs validationLatency),
                                                  (''TriggerFileSizeBytes'',
                                                     \<lparr>Value = float64_of_int (sint (Size job)),
                                                      Unit = ''Bytes''\<rparr>),
                                                  (''TriggerInvocations'', Count 1)])
                                               else w);
                                          w = emit w (Printf ''Queued job %s for file %s/%s (%.2fms)\<newline>''
                                                [S (ProcessingJob.JobID job), S bucket, S key,
                                                 F validationLatency])
                                      in (Returned None, w)))))))
             else (Returned (Some (''could not extract test_id from key: '' @ key)), w)))))"

text \<open>
  The trigger's \<open>handler\<close> goes on with the next record after an error and returns
  \<open>nil\<close>; a panic ends the invocation.
\<close>

fun trigger_handler :: "env \<Rightarrow> world \<Rightarrow> S3EventRecord list \<Rightarrow> outcome \<times> world" where
  "trigger_handler env w [] = (Returned None, w)"
| "trigger_handler env w (record # rest) =
     (case processRecord env w record of
        (Panicked, w) \<Rightarrow> (Panicked, w)
      | (Returned (Some err), w) \<Rightarrow>
          (let w = emit w (Printf ''Error processing record: %v\<newline>'' [S err]);
               w = (if metricsCollector env
                    then snd (EmitBatch env w [(''TriggerFailures'', Count 1)]) else w)
           in trigger_handler env w rest)
      | (Returned None, w) \<Rightarrow> trigger_handler env w rest)"

section \<open>Notions the properties are stated with\<close>

text \<open>
  The entries of the lines that decode, in input order: an empty line is never handed to
  the decoder.
\<close>

fun decoded :: "(string \<Rightarrow> LogEntry option) \<Rightarrow> string list \<Rightarrow> LogEntry list" where
  "decoded unm [] = []"
| "decoded unm (line # rest) =
     (if line = [] then decoded unm rest
      else (case unm line of None \<Rightarrow> decoded unm rest | Some entry \<Rightarrow> entry # decoded unm rest))"

text \<open>The lines that are handed to the decoder and rejected by it.\<close>

definition rejected :: "(string \<Rightarrow> LogEntry option) \<Rightarrow> string list \<Rightarrow> string list" where
  "rejected unm ts = filter (\<lambda>line. line \<noteq> [] \<and> unm line = None) ts"

text \<open>The results handed to \<open>PutItem\<close>, in order.\<close>

fun putItems :: "effect list \<Rightarrow> ProcessingResult list" where
  "putItems [] = []"
| "putItems (DDBPutItem result res # es) = result # putItems es"
| "putItems (e # es) = putItems es"

text \<open>The bodies of the messages handed to \<open>SendMessage\<close>, in order.\<close>

fun sentMessages :: "effect list \<Rightarrow> string list" where
  "sentMessages [] = []"
| "sentMessages (SQSSendMessage body jobID res # es) = body # sentMessages es"
| "sentMessages (e # es) = sentMessages es"

text \<open>The lines of an input that are not empty.\<close>

definition nonEmptyLines :: "string list \<Rightarrow> string list" where
  "nonEmptyLines ts = filter (\<lambda>line. line \<noteq> []) ts"

text \<open>A result with its four timing fields erased.\<close>

definition untimed :: "ProcessingResult \<Rightarrow> ProcessingResult" where
  "untimed r = r\<lparr>ProcessingTimeMs := 0, StartedAt := 0, CompletedAt := 0, ExpiresAt := 0\<rparr>"

text \<open>
  The source fetch or the parse of a job fails, and \<open>msg\<close> is the error that
  \<open>processMessage\<close> wraps it into. \<open>Parse\<close> fails exactly when the scanner reports an error.
\<close>

definition jobFailure :: "env \<Rightarrow> ProcessingJob \<Rightarrow> error \<Rightarrow> bool" where
  "jobFailure env job msg =
     (case getObject env (Bucket job) (Key job) of
        Inl err \<Rightarrow> msg = ''failed to get S3 object: '' @ err
      | Inr reader \<Rightarrow>
          (case scanErr reader of
             Some err \<Rightarrow> msg = ''failed to parse logs: '' @ ''error scanning file: '' @ err
           | None \<Rightarrow> False))"

text \<open>The world of \<open>processMessage\<close> once the job is decoded and \<open>GetObject\<close> is called.\<close>

definition fetching :: "world \<Rightarrow> ProcessingJob \<Rightarrow> world" where
  "fetching w job =
     emit (emit (w\<lparr>ticks := Suc (ticks w)\<rparr>)
            (Printf ''Processing job %s: %s/%s\<newline>''
               [S (ProcessingJob.JobID job), S (Bucket job), S (Key job)]))
          (S3GetObject (Bucket job) (Key job))"

section \<open>The scenario of the specification\<close>

text \<open>
  The three lines of the end-to-end scenario, with the fields that the scenario leaves
  out absent, and \<open>encoding/json\<close> on them: the first two decode, with every absent field
  zero, and \<open>not-json\<close> is rejected, as is a line of blanks.
\<close>

definition line_info :: string where
  \<open>line_info = ''{"level":"INFO","response_time_ms":10}''\<close>

definition line_error :: string where
  \<open>line_error = ''{"level":"ERROR","response_time_ms":500}''\<close>

definition line_bad :: string where
  "line_bad = ''not-json''"

definition entry_info :: LogEntry where
  "entry_info = \<lparr>Timestamp = [], Level = ''INFO'', Endpoint = [], ResponseTimeMs = 10,
                  StatusCode = 0, UserID = [], Message = []\<rparr>"

definition entry_error :: LogEntry where
  "entry_error = \<lparr>Timestamp = [], Level = ''ERROR'', Endpoint = [], ResponseTimeMs = 500,
                   StatusCode = 0, UserID = [], Message = []\<rparr>"

definition scenario_unmarshal :: "string \<Rightarrow> LogEntry option" where
  "scenario_unmarshal line =
     (if line = line_info then Some entry_info
      else if line = line_error then Some entry_error
      else None)"






text \<open>
  The collaborators of the scenario: one message whose object holds the three lines, one
  whose object is missing; every store, queue and metrics call succeeds. \<open>later_env\<close> is
  the same with another clock.
\<close>

definition job_body :: string where \<open>job_body = ''{"job_id":"42"}''\<close>
definition missing_body :: string where \<open>missing_body = ''{"job_id":"43"}''\<close>

definition scenario_job :: ProcessingJob where
  "scenario_job = \<lparr>ProcessingJob.JobID = ''42'', Bucket = ''uploads'',
       Key = ''logs/test_42_20240101T000000.json'', Size = 100,
       ContentType = ''application/json'', ReceivedAt = 0, ValidatedAt = 0\<rparr>"

definition missing_job :: ProcessingJob where
  "missing_job = \<lparr>ProcessingJob.JobID = ''43'', Bucket = ''uploads'',
       Key = ''logs/test_43_20240101T000000.json'', Size = 100,
       ContentType = ''application/json'', ReceivedAt = 0, ValidatedAt = 0\<rparr>"

definition scenario_unmarshalJob :: "string \<Rightarrow> error + ProcessingJob" where
  "scenario_unmarshalJob body =
     (if body = job_body then Inr scenario_job
      else if body = missing_body then Inr missing_job
      else Inl ''unexpected end of JSON input'')"

definition scenario_getObject :: "string \<Rightarrow> string \<Rightarrow> error + Reader" where
  "scenario_getObject bucket key =
     (if bucket = ''uploads'' \<and> key = ''logs/test_42_20240101T000000.json''
      then Inr \<lparr>tokens = [line_info, line_error, line_bad], scanErr = None\<rparr>
      else Inl ''NoSuchKey'')"

definition scenario_headObject :: "string \<Rightarrow> string \<Rightarrow> error + HeadObjectOutput" where
  "scenario_headObject bucket key =
     (if bucket = ''uploads''
      then Inr \<lparr>ContentLength = Some 100, ContentType = Some ''application/json''\<rparr>
      else Inl ''NotFound'')"

definition scenario_env :: env where
  "scenario_env =
     \<lparr>now = (\<lambda>n. 1000000 * int n), metricsCollector = True,
      unmarshalJob = scenario_unmarshalJob, unmarshalEntry = scenario_unmarshal,
      getObject = scenario_getObject, marshalMap = (\<lambda>result. None),
      putItem = (\<lambda>result. None), putMetricData = (\<lambda>data. None),
      headObject = scenario_headObject,
      marshalJob = (\<lambda>job. Inr (''{job_id:'' @ ProcessingJob.JobID job @ ''}'')),
      sendMessage = (\<lambda>body jobID. None)\<rparr>"

definition world0 :: world where
  "world0 = \<lparr>effects = [], ticks = 0\<rparr>"

definition later_env :: env where
  "later_env = scenario_env\<lparr>now := (\<lambda>n. 5000000000 + 3000000 * int n)\<rparr>"

section \<open>Properties of \<open>float64\<close>\<close>











text \<open>An integer below \<open>2^53\<close> in magnitude converts exactly.\<close>

lemma roundHalfEven_one [simp]: "roundHalfEven n 1 = n"
  by (simp add: roundHalfEven_def)



lemma float64_values:
  "float64_div (float64_of_int 510) (float64_of_int 2) = 255"
  "float64_div (float64_of_int 1) (float64_of_int 3) = 6004799503160661 / 18014398509481984"
  "float64_div (float64_of_int 9007199254740993) (float64_of_int 1) = 9007199254740992"
  by code_simp+

section \<open>Properties of the parser\<close>

lemma processEntry_fields:
  "TotalLines (processEntry p e) = TotalLines p"
  "ProcessedLines (processEntry p e) = ProcessedLines p"
  "LogAggregation.ErrorCount (processEntry p e) =
     LogAggregation.ErrorCount p + (if Level e = ''ERROR'' then 1 else 0)"
  "LogAggregation.WarnCount (processEntry p e) =
     LogAggregation.WarnCount p + (if Level e = ''WARN'' then 1 else 0)"
  "LogAggregation.InfoCount (processEntry p e) =
     LogAggregation.InfoCount p + (if Level e = ''INFO'' then 1 else 0)"
  "DebugCount (processEntry p e) = DebugCount p + (if Level e = ''DEBUG'' then 1 else 0)"
  "TotalResponseMs (processEntry p e) = TotalResponseMs p + ResponseTimeMs e"
  "MaxResponseMs (processEntry p e) =
     (if MaxResponseMs p <s ResponseTimeMs e then ResponseTimeMs e else MaxResponseMs p)"
  "LogAggregation.UniqueUsers (processEntry p e) =
     (if UserID e \<noteq> [] then insert (UserID e) (LogAggregation.UniqueUsers p)
      else LogAggregation.UniqueUsers p)"
  "LogAggregation.UniqueEndpoints (processEntry p e) =
     (if Endpoint e \<noteq> [] then insert (Endpoint e) (LogAggregation.UniqueEndpoints p)
      else LogAggregation.UniqueEndpoints p)"
  "StatusCodeCounts (processEntry p e) =
     (if 0 <s StatusCode e
      then (StatusCodeCounts p)(StatusCode e \<mapsto> count_of (StatusCodeCounts p) (StatusCode e) + 1)
      else StatusCodeCounts p)"
  "LogAggregation.more (processEntry p e) = LogAggregation.more p"
  by (simp_all add: processEntry_def Let_def)

subsection \<open>The order of the lines does not matter\<close>

lemma smax_left_commute:
  fixes a x y :: "64 word"
  shows "(if (if a <s x then x else a) <s y then y else (if a <s x then x else a))
       = (if (if a <s y then y else a) <s x then x else (if a <s y then y else a))"
  by (auto simp: word_sless_alt dest: signed_word_eqI signed_word_eqI [OF sym])

lemma bump_commute:
  "(m(j \<mapsto> count_of m j + 1))(k \<mapsto> count_of (m(j \<mapsto> count_of m j + 1)) k + 1)
   = (m(k \<mapsto> count_of m k + 1))(j \<mapsto> count_of (m(k \<mapsto> count_of m k + 1)) j + 1)"
  by (cases "j = k") (auto simp: count_of_def fun_upd_twist)

lemma processEntry_commute:
  "processEntry (processEntry p e1) e2 = processEntry (processEntry p e2) e1"
proof (rule LogAggregation.equality)
  show "MaxResponseMs (processEntry (processEntry p e1) e2)
      = MaxResponseMs (processEntry (processEntry p e2) e1)"
    by (simp only: processEntry_fields smax_left_commute)
  show "StatusCodeCounts (processEntry (processEntry p e1) e2)
      = StatusCodeCounts (processEntry (processEntry p e2) e1)"
    by (simp add: processEntry_fields bump_commute)
  show "LogAggregation.UniqueUsers (processEntry (processEntry p e1) e2)
      = LogAggregation.UniqueUsers (processEntry (processEntry p e2) e1)"
    by (auto simp: processEntry_fields)
  show "LogAggregation.UniqueEndpoints (processEntry (processEntry p e1) e2)
      = LogAggregation.UniqueEndpoints (processEntry (processEntry p e2) e1)"
    by (auto simp: processEntry_fields)
qed (simp_all add: processEntry_fields)

lemma processEntry_WarnCount_update:
  "processEntry (p\<lparr>LogAggregation.WarnCount := LogAggregation.WarnCount p + 1\<rparr>) e
   = (processEntry p e)
       \<lparr>LogAggregation.WarnCount := LogAggregation.WarnCount (processEntry p e) + 1\<rparr>"
  by (rule LogAggregation.equality) (simp_all add: processEntry_fields)

lemma processEntry_ProcessedLines_update:
  "processEntry (p\<lparr>ProcessedLines := v\<rparr>) e = (processEntry p e)\<lparr>ProcessedLines := v\<rparr>"
  by (rule LogAggregation.equality) (simp_all add: processEntry_fields)

lemma scanStep_commute:
  "scanStep unm l1 (scanStep unm l2 s) = scanStep unm l2 (scanStep unm l1 s)"
proof (cases s)
  case (Pair n p)
  show ?thesis
  proof (cases "l1 = [] \<or> unm l1 = None")
    case True
    then show ?thesis
      by (auto simp: Pair scanStep_def Let_def processEntry_WarnCount_update processEntry_fields
          split: option.splits)
  next
    case e1: False
    show ?thesis
    proof (cases "l2 = [] \<or> unm l2 = None")
      case True
      then show ?thesis
        by (auto simp: Pair scanStep_def Let_def processEntry_WarnCount_update
            processEntry_fields split: option.splits)
    next
      case False
      with e1 obtain a b where "unm l1 = Some a" "unm l2 = Some b" "l1 \<noteq> []" "l2 \<noteq> []"
        by auto
      then show ?thesis
        by (simp add: Pair scanStep_def Let_def processEntry_ProcessedLines_update
            processEntry_fields processEntry_commute [of p a b])
    qed
  qed
qed

lemma scanLoop_fold: "scanLoop unm ts s = fold (scanStep unm) ts s"
  by (induction ts arbitrary: s) simp_all

lemma scanLoop_mset:
  assumes "mset ts = mset ts'"
  shows "scanLoop unm ts s = scanLoop unm ts' s"
proof -
  have "fold (scanStep unm) ts = fold (scanStep unm) ts'"
    by (rule fold_multiset_equiv [OF _ assms]) (simp add: fun_eq_iff scanStep_commute)
  then show ?thesis
    by (simp add: scanLoop_fold)
qed

lemma scanLoop_append:
  "scanLoop unm (xs @ ys) s = scanLoop unm ys (scanLoop unm xs s)"
  by (induction xs arbitrary: s) simp_all

subsection \<open>What the loop computes\<close>

lemma scanStep_eq:
  "scanStep unm l (n, p) =
     (n + 1, if l = [] then p
             else (case unm l of
                     None \<Rightarrow> p\<lparr>LogAggregation.WarnCount := LogAggregation.WarnCount p + 1\<rparr>
                   | Some e \<Rightarrow> (processEntry p e)\<lparr>ProcessedLines := ProcessedLines p + 1\<rparr>))"
  by (simp add: scanStep_def Let_def processEntry_fields split: option.splits)

lemma scanLoop_lineNum: "fst (scanLoop unm ts (n, p)) = n + of_nat (length ts)"
  by (induction ts arbitrary: n p) (simp_all add: scanStep_eq)

lemma scanLoop_ProcessedLines:
  "ProcessedLines (snd (scanLoop unm ts (n, p))) = ProcessedLines p + of_nat (length (decoded unm ts))"
  by (induction ts arbitrary: n p) (simp_all add: scanStep_eq processEntry_fields split: option.splits)

lemma scanLoop_WarnCount:
  "LogAggregation.WarnCount (snd (scanLoop unm ts (n, p))) =
     LogAggregation.WarnCount p + of_nat (length (rejected unm ts))
       + of_nat (length (filter (\<lambda>e. Level e = ''WARN'') (decoded unm ts)))"
  by (induction ts arbitrary: n p)
     (simp_all add: scanStep_eq processEntry_fields rejected_def split: option.splits)

lemma scanLoop_ErrorCount:
  "LogAggregation.ErrorCount (snd (scanLoop unm ts (n, p))) =
     LogAggregation.ErrorCount p + of_nat (length (filter (\<lambda>e. Level e = ''ERROR'') (decoded unm ts)))"
  by (induction ts arbitrary: n p)
     (simp_all add: scanStep_eq processEntry_fields split: option.splits)

lemma scanLoop_InfoCount:
  "LogAggregation.InfoCount (snd (scanLoop unm ts (n, p))) =
     LogAggregation.InfoCount p + of_nat (length (filter (\<lambda>e. Level e = ''INFO'') (decoded unm ts)))"
  by (induction ts arbitrary: n p)
     (simp_all add: scanStep_eq processEntry_fields split: option.splits)


lemma scanLoop_MaxResponseMs:
  "sint (MaxResponseMs (snd (scanLoop unm ts (n, p)))) =
     Max (insert (sint (MaxResponseMs p)) (set (map (\<lambda>e. sint (ResponseTimeMs e)) (decoded unm ts))))"
proof (induction ts arbitrary: n p)
  case Nil
  then show ?case by simp
next
  case (Cons l ts)
  show ?case
  proof (cases "l = [] \<or> unm l = None")
    case True
    then show ?thesis
      by (auto simp: scanStep_eq Cons.IH)
  next
    case False
    then obtain e where e: "unm l = Some e" "l \<noteq> []" by auto
    let ?S = "set (map (\<lambda>e. sint (ResponseTimeMs e)) (decoded unm ts))"
    have fin: "finite ?S" by simp
    have "Max (insert (sint (if MaxResponseMs p <s ResponseTimeMs e then ResponseTimeMs e else MaxResponseMs p)) ?S)
        = Max (insert (sint (MaxResponseMs p)) (insert (sint (ResponseTimeMs e)) ?S))"
    proof (cases "?S = {}")
      case True
      then show ?thesis by (auto simp: word_sless_alt max_def)
    next
      case False
      then show ?thesis using fin by (auto simp: word_sless_alt max_def)
    qed
    then show ?thesis
      using e by (simp add: scanStep_eq Cons.IH processEntry_fields)
  qed
qed

lemma scanStep_Max_mono:
  "MaxResponseMs (snd s) \<le>s MaxResponseMs (snd (scanStep unm l s))"
  by (cases s) (auto simp: scanStep_eq processEntry_fields word_sle_eq word_sless_alt split: option.splits)

lemma scanLoop_Max_mono:
  "MaxResponseMs (snd s) \<le>s MaxResponseMs (snd (scanLoop unm ts s))"
proof (induction ts arbitrary: s)
  case Nil
  then show ?case by (simp add: word_sle_eq)
next
  case (Cons l ts)
  have "MaxResponseMs (snd s) \<le>s MaxResponseMs (snd (scanStep unm l s))"
    by (rule scanStep_Max_mono)
  moreover have "MaxResponseMs (snd (scanStep unm l s)) \<le>s MaxResponseMs (snd (scanLoop unm ts (scanStep unm l s)))"
    by (rule Cons.IH)
  ultimately show ?case
    by (simp add: word_sle_eq)
qed

lemma sint_of_nat_small:
  "n < 2 ^ 63 \<Longrightarrow> sint (word_of_nat n :: 64 word) = int n"
  by (simp add: signed_of_nat signed_take_bit_int_eq_self)


lemmas scenario_defs = line_info_def line_error_def line_bad_def entry_info_def entry_error_def
  scenario_unmarshal_def

lemma decoded_rejected_partition:
  "length (decoded unm ts) + length (rejected unm ts) = length (nonEmptyLines ts)"
  by (induction ts) (auto simp: rejected_def nonEmptyLines_def split: option.splits)

lemma decoded_length_le: "length (decoded unm ts) \<le> length ts"
  by (induction ts) (auto split: option.splits)

lemma Parse_ok:
  "Parse unm p \<lparr>tokens = ts, scanErr = None\<rparr> = (Inr agg, p') \<longleftrightarrow>
     agg = (snd (scanLoop unm ts (0, p)))\<lparr>TotalLines := fst (scanLoop unm ts (0, p))\<rparr> \<and> p' = agg"
  by (auto simp: Parse_def Let_def split: prod.splits)

lemma Parse_success:
  assumes "scanErr reader = None"
  shows "Parse unm p reader = (Inr (snd (Parse unm p reader)), snd (Parse unm p reader))"
  using assms by (simp add: Parse_def Let_def split: prod.splits)



section \<open>The claims about the parser\<close>

text \<open>
  C2, as the code has it. After \<open>Parse\<close> has completed on fewer than \<open>2^63\<close> lines,
  \<open>TotalLines\<close> is the number of all lines scanned, the empty ones included, since
  \<open>lineNum\<close> is incremented before the test for an empty line. An empty line is neither
  decoded nor counted as a failure; every other line, a line of blanks included, is handed to
  the decoder and either decodes and counts in \<open>ProcessedLines\<close> or is rejected and counts
  one warning, so that the decoded and the rejected lines together are the non-empty ones.
  \<open>ProcessedLines\<close> is at most \<open>TotalLines\<close>.
\<close>

theorem Parse_line_counts:
  assumes "Parse unm NewLogAggregation \<lparr>tokens = ts, scanErr = None\<rparr> = (Inr agg, p')"
    and "length ts < 2 ^ 63"
  shows "sint (TotalLines agg) = int (length ts)
       \<and> sint (ProcessedLines agg) = int (length (decoded unm ts))
       \<and> length (decoded unm ts) + length (rejected unm ts) = length (nonEmptyLines ts)
       \<and> LogAggregation.WarnCount agg =
           word_of_nat (length (rejected unm ts))
             + word_of_nat (length (filter (\<lambda>e. Level e = ''WARN'') (decoded unm ts)))
       \<and> ProcessedLines agg \<le>s TotalLines agg"
proof -
  from assms(1) have agg:
    "agg = (snd (scanLoop unm ts (0, NewLogAggregation)))
             \<lparr>TotalLines := fst (scanLoop unm ts (0, NewLogAggregation))\<rparr>"
    by (simp add: Parse_ok)
  have d: "length (decoded unm ts) < 2 ^ 63"
    using decoded_length_le [of unm ts] assms(2) by simp
  have total: "sint (TotalLines agg) = int (length ts)"
    by (simp add: agg scanLoop_lineNum sint_of_nat_small [OF assms(2)])
  have processed: "sint (ProcessedLines agg) = int (length (decoded unm ts))"
    by (simp add: agg scanLoop_ProcessedLines NewLogAggregation_def sint_of_nat_small [OF d])
  have warn: "LogAggregation.WarnCount agg =
           word_of_nat (length (rejected unm ts))
             + word_of_nat (length (filter (\<lambda>e. Level e = ''WARN'') (decoded unm ts)))"
    by (simp add: agg scanLoop_WarnCount NewLogAggregation_def)
  have le: "ProcessedLines agg \<le>s TotalLines agg"
    using decoded_length_le [of unm ts] by (simp add: word_sle_eq total processed)
  show ?thesis
    using total processed warn le decoded_rejected_partition [of unm ts] by simp
qed

theorem Parse_line_counts_witness:
  "Parse scenario_unmarshal NewLogAggregation \<lparr>tokens = [[], line_info, '' '', line_error], scanErr = None\<rparr>
     = (Inr (snd (Parse scenario_unmarshal NewLogAggregation \<lparr>tokens = [[], line_info, '' '', line_error], scanErr = None\<rparr>)),
        snd (Parse scenario_unmarshal NewLogAggregation \<lparr>tokens = [[], line_info, '' '', line_error], scanErr = None\<rparr>))
   \<and> length [[], line_info, '' '', line_error] < 2 ^ 63
   \<and> sint (TotalLines (snd (Parse scenario_unmarshal NewLogAggregation \<lparr>tokens = [[], line_info, '' '', line_error], scanErr = None\<rparr>))) = 4
   \<and> sint (ProcessedLines (snd (Parse scenario_unmarshal NewLogAggregation \<lparr>tokens = [[], line_info, '' '', line_error], scanErr = None\<rparr>))) = 2
   \<and> LogAggregation.WarnCount (snd (Parse scenario_unmarshal NewLogAggregation \<lparr>tokens = [[], line_info, '' '', line_error], scanErr = None\<rparr>)) = 1"
proof -
  let ?ts = "[[], line_info, '' '', line_error]"
  let ?P = "Parse scenario_unmarshal NewLogAggregation \<lparr>tokens = ?ts, scanErr = None\<rparr>"
  have h1: "?P = (Inr (snd ?P), snd ?P)"
    by (simp add: Parse_def Let_def split: prod.splits)
  have h2: "length ?ts < 2 ^ 63" by simp
  have d: "decoded scenario_unmarshal ?ts = [entry_info, entry_error]"
    by (simp add: scenario_defs)
  have r: "rejected scenario_unmarshal ?ts = ['' '']"
    by (simp add: rejected_def scenario_defs)
  show ?thesis
    using h1 h2 Parse_line_counts [OF h1 h2] 
    by (simp add: d r) (simp add: scenario_defs)
qed

text \<open>
  C2 as the specification states it fails on an empty line followed by one log line:
  \<open>TotalLines\<close> is 2, and one line is not empty.
\<close>

theorem total_lines_counterexample:
  "TotalLines (snd (Parse scenario_unmarshal NewLogAggregation \<lparr>tokens = [[], line_info], scanErr = None\<rparr>))
     \<noteq> word_of_nat (length (nonEmptyLines [[], line_info]))"
  by (simp add: Parse_def scanStep_def Let_def nonEmptyLines_def scenario_defs processEntry_fields NewLogAggregation_def)



text \<open>
  C6. When no decoded record has a negative \<open>ResponseTimeMs\<close>: \<open>MaxResponseMs\<close> starts at 0,
  it never decreases from one prefix of the input to a longer one, and once \<open>Parse\<close> has
  completed it is the greatest \<open>ResponseTimeMs\<close> of the decoded lines, 0 if there are none.
\<close>

theorem MaxResponseMs_is_maximum:
  assumes "\<forall>e\<in>set (decoded unm ts). 0 \<le>s ResponseTimeMs e"
  shows "MaxResponseMs NewLogAggregation = 0
       \<and> (\<forall>xs ys zs. ts = xs @ ys @ zs \<longrightarrow>
            MaxResponseMs (snd (scanLoop unm xs (0, NewLogAggregation)))
              \<le>s MaxResponseMs (snd (scanLoop unm (xs @ ys) (0, NewLogAggregation))))
       \<and> (\<forall>agg p'. Parse unm NewLogAggregation \<lparr>tokens = ts, scanErr = None\<rparr> = (Inr agg, p') \<longrightarrow>
            sint (MaxResponseMs agg) =
              (if decoded unm ts = [] then 0
               else Max (set (map (\<lambda>e. sint (ResponseTimeMs e)) (decoded unm ts)))))"
proof (intro conjI allI impI)
  show "MaxResponseMs NewLogAggregation = 0"
    by (simp add: NewLogAggregation_def)
next
  fix xs ys zs
  show "MaxResponseMs (snd (scanLoop unm xs (0, NewLogAggregation)))
          \<le>s MaxResponseMs (snd (scanLoop unm (xs @ ys) (0, NewLogAggregation)))"
    by (simp add: scanLoop_append scanLoop_Max_mono)
next
  fix agg p'
  assume "Parse unm NewLogAggregation \<lparr>tokens = ts, scanErr = None\<rparr> = (Inr agg, p')"
  then have agg: "MaxResponseMs agg = MaxResponseMs (snd (scanLoop unm ts (0, NewLogAggregation)))"
    by (simp add: Parse_ok)
  let ?S = "set (map (\<lambda>e. sint (ResponseTimeMs e)) (decoded unm ts))"
  have m: "sint (MaxResponseMs agg) = Max (insert 0 ?S)"
    by (simp add: agg scanLoop_MaxResponseMs NewLogAggregation_def)
  show "sint (MaxResponseMs agg) = (if decoded unm ts = [] then 0 else Max ?S)"
  proof (cases "decoded unm ts = []")
    case True
    then show ?thesis by (simp add: m)
  next
    case False
    then have ne: "?S \<noteq> {}" by simp
    have "\<forall>x\<in>?S. 0 \<le> x"
      using assms by (auto simp: word_sle_eq)
    then have "0 \<le> Max ?S"
      using ne by (meson List.finite_set Max_in)
    then have "Max (insert 0 ?S) = Max ?S"
      using ne by (simp add: max_def)
    then show ?thesis using False by (simp add: m)
  qed
qed

theorem MaxResponseMs_is_maximum_witness:
  "decoded scenario_unmarshal [line_info, line_bad, line_error] = [entry_info, entry_error]
   \<and> 0 \<le>s ResponseTimeMs entry_info \<and> 0 \<le>s ResponseTimeMs entry_error
   \<and> sint (MaxResponseMs (snd (Parse scenario_unmarshal NewLogAggregation
        \<lparr>tokens = [line_info, line_bad, line_error], scanErr = None\<rparr>))) = 500"
proof -
  let ?ts = "[line_info, line_bad, line_error]"
  let ?P = "Parse scenario_unmarshal NewLogAggregation \<lparr>tokens = ?ts, scanErr = None\<rparr>"
  have d: "decoded scenario_unmarshal ?ts = [entry_info, entry_error]"
    by (simp add: scenario_defs)
  have h: "\<forall>e\<in>set (decoded scenario_unmarshal ?ts). 0 \<le>s ResponseTimeMs e"
    by (simp add: d) (simp add: scenario_defs word_sle_eq)
  have p: "?P = (Inr (snd ?P), snd ?P)"
    by (simp add: Parse_def Let_def split: prod.splits)
  have "sint (MaxResponseMs (snd ?P)) =
          (if decoded scenario_unmarshal ?ts = [] then 0
           else Max (set (map (\<lambda>e. sint (ResponseTimeMs e)) (decoded scenario_unmarshal ?ts))))"
    using MaxResponseMs_is_maximum [OF h] p by blast
  then have "sint (MaxResponseMs (snd ?P)) = 500"
    by (simp add: d) (simp add: scenario_defs)
  moreover have "0 \<le>s ResponseTimeMs entry_info \<and> 0 \<le>s ResponseTimeMs entry_error"
    by (simp add: scenario_defs word_sle_eq)
  ultimately show ?thesis
    using d by simp
qed

text \<open>
  C9. Two readers that yield the same lines in different orders (and end alike) make
  \<open>Parse\<close> return the same result and leave the same aggregation, field by field, from any
  parser state.
\<close>

theorem Parse_permutation_invariant:
  assumes "mset (tokens reader) = mset (tokens reader')"
    and "scanErr reader = scanErr reader'"
  shows "Parse unm p reader = Parse unm p reader'"
  using scanLoop_mset [OF assms(1), of unm "(0, p)"] assms(2)
  by (simp add: Parse_def)

theorem Parse_permutation_invariant_witness:
  "mset (tokens \<lparr>tokens = [line_info, line_bad, line_error], scanErr = None\<rparr>)
     = mset (tokens \<lparr>tokens = [line_error, line_info, line_bad], scanErr = None\<rparr>)
   \<and> scanErr \<lparr>tokens = [line_info, line_bad, line_error], scanErr = None\<rparr>
     = scanErr \<lparr>tokens = [line_error, line_info, line_bad], scanErr = None\<rparr>
   \<and> Parse scenario_unmarshal NewLogAggregation \<lparr>tokens = [line_info, line_bad, line_error], scanErr = None\<rparr>
     = Parse scenario_unmarshal NewLogAggregation \<lparr>tokens = [line_error, line_info, line_bad], scanErr = None\<rparr>"
proof -
  have h1: "mset (tokens \<lparr>tokens = [line_info, line_bad, line_error], scanErr = None\<rparr>)
     = mset (tokens \<lparr>tokens = [line_error, line_info, line_bad], scanErr = None\<rparr>)"
    by simp
  have h2: "scanErr \<lparr>tokens = [line_info, line_bad, line_error], scanErr = None\<rparr>
     = scanErr \<lparr>tokens = [line_error, line_info, line_bad], scanErr = None\<rparr>"
    by simp
  show ?thesis
    using h1 h2 Parse_permutation_invariant [OF h1 h2] by blast
qed


section \<open>Properties of the worker\<close>

subsection \<open>Effects of the helpers\<close>

lemma effects_emit [simp]: "effects (emit w e) = effects w @ [e]"
  by (simp add: emit_def)

lemma ticks_emit [simp]: "ticks (emit w e) = ticks w"
  by (simp add: emit_def)

lemma putItems_append [simp]: "putItems (xs @ ys) = putItems xs @ putItems ys"
  by (induction xs rule: putItems.induct) simp_all

lemma putMetricBlocks_effects:
  "\<exists>es. effects (snd (putMetricBlocks env w t ms)) = effects w @ es \<and> putItems es = []"
proof (induction env w t ms rule: putMetricBlocks.induct)
  case (1 env w timestamp data)
  show ?case
  proof (cases "data = []")
    case True
    then show ?thesis by (subst putMetricBlocks.simps) simp
  next
    case ne: False
    let ?w = "emit w (CWPutMetricData timestamp (take 1000 data) (putMetricData env (take 1000 data)))"
    show ?thesis
    proof (cases "putMetricData env (take 1000 data)")
      case None
      from "1.IH" [OF ne refl refl refl None]
      obtain es where "effects (snd (putMetricBlocks env ?w timestamp (drop 1000 data))) = effects ?w @ es"
        "putItems es = []" by blast
      then show ?thesis
        using ne None by (subst putMetricBlocks.simps) (simp add: Let_def)
    next
      case (Some e)
      then show ?thesis
        using ne by (subst putMetricBlocks.simps) (simp add: Let_def)
    qed
  qed
qed

lemma EmitBatch_effects:
  "\<exists>es. effects (snd (EmitBatch env w ms)) = effects w @ es \<and> putItems es = []"
proof (cases "length ms = 0")
  case True
  then show ?thesis by (simp add: EmitBatch_def)
next
  case False
  then show ?thesis
    using putMetricBlocks_effects [of env "w\<lparr>ticks := Suc (ticks w)\<rparr>" "now env (ticks w)" ms]
    by (simp add: EmitBatch_def timeNow_def)
qed

lemma saveResult_fst:
  "fst (saveResult env w r) =
     (case marshalMap env r of Some e \<Rightarrow> Some (''failed to marshal result: '' @ e)
      | None \<Rightarrow> putItem env r)"
  by (simp add: saveResult_def split: option.splits)

lemma saveResult_effects:
  "effects (snd (saveResult env w r)) =
     effects w @ (if marshalMap env r = None then [DDBPutItem r (putItem env r)] else [])"
  by (simp add: saveResult_def split: option.splits)

lemma saveFailedResult_fst: "fst (saveFailedResult env w job t0 msg) = Some msg"
  by (simp add: saveFailedResult_def timeNow_def Let_def split: prod.splits)

lemma saveFailedResult_effects:
  "\<exists>r es. r = failedResult job t0 (now env (ticks w)) (now env (Suc (ticks w))) (now env (Suc (Suc (ticks w)))) msg
     \<and> effects (snd (saveFailedResult env w job t0 msg)) =
         effects w @ (if marshalMap env r = None then [DDBPutItem r (putItem env r)] else [])
           @ (case fst (saveResult env w r) of
                Some e \<Rightarrow> [Printf ''Failed to save error result: %v\<newline>'' [S e]] | None \<Rightarrow> [])
           @ es
     \<and> putItems es = []"
proof -
  let ?r = "failedResult job t0 (now env (ticks w)) (now env (Suc (ticks w))) (now env (Suc (Suc (ticks w)))) msg"
  let ?w3 = "w\<lparr>ticks := Suc (Suc (Suc (ticks w)))\<rparr>"
  obtain res w4 where sr: "saveResult env ?w3 ?r = (res, w4)" by (cases "saveResult env ?w3 ?r")
  have res: "res = fst (saveResult env w ?r)"
    using sr saveResult_fst [of env ?w3 ?r] by (simp add: saveResult_fst)
  have w4: "effects w4 = effects w @ (if marshalMap env ?r = None then [DDBPutItem ?r (putItem env ?r)] else [])"
    using sr saveResult_effects [of env ?w3 ?r] by simp
  let ?w5 = "(case res of Some err \<Rightarrow> emit w4 (Printf ''Failed to save error result: %v\<newline>'' [S err]) | None \<Rightarrow> w4)"
  have w5: "effects ?w5 = effects w4 @ (case res of Some e \<Rightarrow> [Printf ''Failed to save error result: %v\<newline>'' [S e]] | None \<Rightarrow> [])"
    by (simp split: option.splits)
  let ?w6 = "(if metricsCollector env then snd (EmitBatch env ?w5 [(''WorkerFailureCount'', Count 1)]) else ?w5)"
  obtain es where es: "effects ?w6 = effects ?w5 @ es" "putItems es = []"
    using EmitBatch_effects [of env ?w5 "[(''WorkerFailureCount'', Count 1)]"]
    by (cases "metricsCollector env") auto
  have "snd (saveFailedResult env w job t0 msg) = ?w6"
    using sr by (simp add: saveFailedResult_def timeNow_def Let_def failedResult_def)
  then show ?thesis
    using es w5 w4 res by auto
qed

lemma closing_fst [simp]: "fst (closing r) = fst r"
  by (simp add: closing_def split: prod.splits)

lemma closing_effects [simp]: "effects (snd (closing r)) = effects (snd r) @ [BodyClose]"
  by (simp add: closing_def split: prod.splits)

lemma processMessage_undecodable:
  assumes "unmarshalJob env body = Inl err"
  shows "processMessage env w body =
           (Some (''failed to unmarshal job: '' @ err), w\<lparr>ticks := Suc (ticks w)\<rparr>)"
  using assms by (simp add: processMessage_def timeNow_def)

lemma putItems_fetching [simp]: "putItems (effects (fetching w job)) = putItems (effects w)"
  by (simp add: fetching_def)

lemma ticks_fetching [simp]: "ticks (fetching w job) = Suc (ticks w)"
  by (simp add: fetching_def)

lemma processMessage_fetch_failure:
  assumes "unmarshalJob env body = Inr job"
    and "getObject env (Bucket job) (Key job) = Inl err"
  shows "processMessage env w body =
           saveFailedResult env (fetching w job) job (now env (ticks w))
             (''failed to get S3 object: '' @ err)"
  using assms by (simp add: processMessage_def timeNow_def Let_def fetching_def)

lemma processMessage_parse_failure:
  assumes "unmarshalJob env body = Inr job"
    and "getObject env (Bucket job) (Key job) = Inr reader"
    and "scanErr reader = Some err"
  shows "processMessage env w body =
           closing (saveFailedResult env (fetching w job) job (now env (ticks w))
             (''failed to parse logs: '' @ ''error scanning file: '' @ err))"
  using assms
  by (simp add: processMessage_def timeNow_def Let_def fetching_def Parse_def split: prod.splits)

lemma processMessage_parsed:
  assumes "unmarshalJob env body = Inr job"
    and "getObject env (Bucket job) (Key job) = Inr reader"
    and "scanErr reader = None"
    and "agg = snd (Parse (unmarshalEntry env) NewLogAggregation reader)"
    and "r = completedResult job agg agg (now env (ticks w)) (now env (Suc (ticks w)))
               (now env (Suc (Suc (ticks w)))) (now env (Suc (Suc (Suc (ticks w)))))"
  shows "fst (processMessage env w body) =
           (case fst (saveResult env w r) of
              Some e \<Rightarrow> Some (''failed to save result: '' @ e) | None \<Rightarrow> None)"
    and "putItems (effects (snd (processMessage env w body))) =
           putItems (effects w) @ (if marshalMap env r = None then [r] else [])"
proof -
  let ?w4 = "(fetching w job)\<lparr>ticks := Suc (Suc (Suc (Suc (ticks w))))\<rparr>"
  have P: "Parse (unmarshalEntry env) NewLogAggregation reader = (Inr agg, agg)"
    using Parse_success [OF assms(3)] assms(4) by simp
  obtain res w5 where sr: "saveResult env ?w4 r = (res, w5)" by (cases "saveResult env ?w4 r")
  have res: "res = fst (saveResult env w r)"
    using sr saveResult_fst [of env ?w4 r] by (simp add: saveResult_fst)
  have w5: "putItems (effects w5) = putItems (effects w) @ (if marshalMap env r = None then [r] else [])"
    using sr saveResult_effects [of env ?w4 r] by simp
  show "fst (processMessage env w body) =
           (case fst (saveResult env w r) of
              Some e \<Rightarrow> Some (''failed to save result: '' @ e) | None \<Rightarrow> None)"
    using assms(1,2) P sr res assms(5)
    by (simp add: processMessage_def timeNow_def Let_def fetching_def split: option.splits)
  show "putItems (effects (snd (processMessage env w body))) =
           putItems (effects w) @ (if marshalMap env r = None then [r] else [])"
  proof (cases res)
    case (Some e)
    then show ?thesis
      using assms(1,2) P sr w5 assms(5)
      by (simp add: processMessage_def timeNow_def Let_def fetching_def)
  next
    case None
    let ?ms = "[(''WorkerProcessingLatencyMs'', LatencyMs (float64_of_int (sint (ProcessingTimeMs r)))),
                (''WorkerLinesProcessed'', Count (float64_of_int (sint (LineCount r)))),
                (''WorkerErrorsFound'', Count (float64_of_int (sint (ProcessingResult.ErrorCount r)))),
                (''WorkerSuccessCount'', Count 1)]"
    obtain es where es: "effects (snd (EmitBatch env w5 ?ms)) = effects w5 @ es" "putItems es = []"
      using EmitBatch_effects [of env w5 ?ms] by blast
    show ?thesis
      using assms(1,2) P sr w5 assms(5) None es
      by (simp add: processMessage_def timeNow_def Let_def fetching_def)
  qed
qed

lemma untimed_completedResult:
  "untimed (completedResult job agg p t0 t1 t2 t3) = untimed (completedResult job agg p 0 0 0 0)"
  by (simp add: untimed_def completedResult_def)

lemma untimed_failedResult:
  "untimed (failedResult job t0 t1 t2 t3 msg) = untimed (failedResult job 0 0 0 0 msg)"
  by (simp add: untimed_def failedResult_def)

lemma jobFailure_cases:
  assumes "jobFailure env job msg"
  obtains err where "getObject env (Bucket job) (Key job) = Inl err"
      "msg = ''failed to get S3 object: '' @ err"
    | reader err where "getObject env (Bucket job) (Key job) = Inr reader" "scanErr reader = Some err"
      "msg = ''failed to parse logs: '' @ ''error scanning file: '' @ err"
  using assms by (auto simp: jobFailure_def split: sum.splits option.splits)

lemma processMessage_job_failure:
  assumes "unmarshalJob env body = Inr job" and "jobFailure env job msg"
  shows "\<exists>es. processMessage env w body =
            (Some msg, (snd (saveFailedResult env (fetching w job) job (now env (ticks w)) msg))
                         \<lparr>effects := effects (snd (saveFailedResult env (fetching w job) job (now env (ticks w)) msg)) @ es\<rparr>)
          \<and> putItems es = []"
  using assms(2)
proof (cases rule: jobFailure_cases)
  case (1 err)
  have "fst (processMessage env w body) = Some msg"
    by (simp add: processMessage_fetch_failure [OF assms(1) 1(1)] 1(2) saveFailedResult_fst)
  then have "processMessage env w body =
      (Some msg, snd (saveFailedResult env (fetching w job) job (now env (ticks w)) msg))"
    by (simp add: processMessage_fetch_failure [OF assms(1) 1(1)] 1(2) prod_eq_iff)
  then show ?thesis
    by (intro exI [of _ "[]"]) simp
next
  case (2 reader err)
  let ?sf = "saveFailedResult env (fetching w job) job (now env (ticks w)) msg"
  have "processMessage env w body = closing ?sf"
    by (simp add: processMessage_parse_failure [OF assms(1) 2(1,2)] 2(3))
  then have "processMessage env w body = (Some msg, (snd ?sf)\<lparr>effects := effects (snd ?sf) @ [BodyClose]\<rparr>)"
    using saveFailedResult_fst [of env "fetching w job" job "now env (ticks w)" msg]
    by (simp add: closing_def emit_def split: prod.splits)
  then show ?thesis
    by (intro exI [of _ "[BodyClose]"]) simp
qed

lemma scenario_aggregation:
  assumes "l1 \<noteq> []" "l2 \<noteq> []"
    and "unm l1 = Some e1" "Level e1 = ''INFO''" "ResponseTimeMs e1 = 10"
    and "unm l2 = Some e2" "Level e2 = ''ERROR''" "ResponseTimeMs e2 = 500"
    and "unm ''not-json'' = None"
    and "agg = snd (Parse unm NewLogAggregation \<lparr>tokens = [l1, l2, ''not-json''], scanErr = None\<rparr>)"
  shows "TotalLines agg = 3" "LogAggregation.ErrorCount agg = 1" "LogAggregation.InfoCount agg = 1"
    "LogAggregation.WarnCount agg = 1" "MaxResponseMs agg = 500" "GetAverageResponseTime agg = 255"
proof -
  have f: "ProcessedLines agg = 2" "TotalResponseMs agg = 510"
    using assms
    by (simp_all add: Parse_def scanStep_eq processEntry_fields NewLogAggregation_def Let_def)
  show "TotalLines agg = 3" "LogAggregation.ErrorCount agg = 1" "LogAggregation.InfoCount agg = 1"
    "LogAggregation.WarnCount agg = 1" "MaxResponseMs agg = 500"
    using assms
    by (simp_all add: Parse_def scanStep_eq processEntry_fields NewLogAggregation_def Let_def
        word_sless_alt)
  show "GetAverageResponseTime agg = 255"
    by (simp add: GetAverageResponseTime_def f float64_values)
qed

lemma scenario_env_scenario:
  "unmarshalJob scenario_env job_body = Inr scenario_job"
  "getObject scenario_env (Bucket scenario_job) (Key scenario_job)
     = Inr \<lparr>tokens = [line_info, line_error, ''not-json''], scanErr = None\<rparr>"
  "line_info \<noteq> []" "line_error \<noteq> []"
  "unmarshalEntry scenario_env line_info = Some entry_info"
  "Level entry_info = ''INFO''" "ResponseTimeMs entry_info = 10"
  "unmarshalEntry scenario_env line_error = Some entry_error"
  "Level entry_error = ''ERROR''" "ResponseTimeMs entry_error = 500"
  "unmarshalEntry scenario_env ''not-json'' = None"
  "marshalMap scenario_env r = None"
  by (simp_all add: scenario_env_def scenario_unmarshalJob_def scenario_getObject_def
      scenario_job_def job_body_def scenario_defs)

lemma scenario_puts:
  "\<exists>r. putItems (effects (snd (processMessage scenario_env world0 job_body))) = [r]
     \<and> Status r = ''completed'' \<and> ProcessingResult.WarnCount r = 1"
proof -
  note h = scenario_env_scenario
  define agg where "agg = snd (Parse (unmarshalEntry scenario_env) NewLogAggregation
      \<lparr>tokens = [line_info, line_error, ''not-json''], scanErr = None\<rparr>)"
  define r where "r = completedResult scenario_job agg agg (now scenario_env (ticks world0))
     (now scenario_env (Suc (ticks world0)))
     (now scenario_env (Suc (Suc (ticks world0)))) (now scenario_env (Suc (Suc (Suc (ticks world0)))))"
  have "putItems (effects (snd (processMessage scenario_env world0 job_body))) =
               putItems (effects world0) @ (if marshalMap scenario_env r = None then [r] else [])"
    by (rule processMessage_parsed(2) [OF h(1,2) _ agg_def r_def]) simp
  moreover have "ProcessingResult.WarnCount r = 1" "Status r = ''completed''"
    by (simp_all add: r_def completedResult_def scenario_aggregation(4) [OF h(3-11) agg_def])
  ultimately show ?thesis
    by (simp add: h(12) world0_def)
qed

lemma processMessage_job_failure_puts:
  assumes "unmarshalJob env body = Inr job" and "jobFailure env job msg"
  shows "\<exists>t1 t2 t3. putItems (effects (snd (processMessage env w body))) =
           putItems (effects w)
             @ (if marshalMap env (failedResult job (now env (ticks w)) t1 t2 t3 msg) = None
                then [failedResult job (now env (ticks w)) t1 t2 t3 msg] else [])"
proof -
  let ?w1 = "fetching w job"
  let ?sf = "saveFailedResult env ?w1 job (now env (ticks w)) msg"
  obtain es where pm: "processMessage env w body = (Some msg, (snd ?sf)\<lparr>effects := effects (snd ?sf) @ es\<rparr>)"
    and es: "putItems es = []"
    using processMessage_job_failure [OF assms] by blast
  obtain r es' where r: "r = failedResult job (now env (ticks w)) (now env (ticks ?w1))
        (now env (Suc (ticks ?w1))) (now env (Suc (Suc (ticks ?w1)))) msg"
    and eff: "effects (snd ?sf) =
         effects ?w1 @ (if marshalMap env r = None then [DDBPutItem r (putItem env r)] else [])
           @ (case fst (saveResult env ?w1 r) of
                Some e \<Rightarrow> [Printf ''Failed to save error result: %v\<newline>'' [S e]] | None \<Rightarrow> [])
           @ es'"
    and es': "putItems es' = []"
    using saveFailedResult_effects [where env = env and w = ?w1 and job = job
        and ?t0.0 = "now env (ticks w)" and msg = msg] by blast
  have "putItems (effects (snd (processMessage env w body))) =
                  putItems (effects w) @ (if marshalMap env r = None then [r] else [])"
    by (simp add: pm eff es es' split: option.splits)
  then show ?thesis
    unfolding r by blast
qed

lemma later_env_fields:
  "unmarshalJob later_env = unmarshalJob scenario_env"
  "unmarshalEntry later_env = unmarshalEntry scenario_env"
  "getObject later_env = getObject scenario_env"
  "marshalMap later_env = marshalMap scenario_env"
  by (simp_all add: later_env_def)

lemma worker_handler_append:
  "worker_handler env w pre = (None, w1) \<Longrightarrow>
     worker_handler env w (pre @ rest) = worker_handler env w1 rest"
proof (induction pre arbitrary: w)
  case Nil
  then show ?case by simp
next
  case (Cons m pre)
  then show ?case
    by (cases "processMessage env w m") (auto split: option.splits)
qed

section \<open>The claims about the worker\<close>

text \<open>
  C8. Whenever the source fetch or the parse of a decoded job fails, \<open>processMessage\<close>
  returns that error, never \<open>nil\<close>. Before it returns it builds a result with status
  \<open>failed\<close> that carries the error message and hands it to \<open>PutItem\<close> (unless the result
  cannot be marshalled); when this write fails, the failure is printed and the original
  error is returned all the same.
\<close>

theorem job_failure_recorded_and_propagated:
  assumes "unmarshalJob env body = Inr job" and "jobFailure env job msg"
  shows "fst (processMessage env w body) = Some msg
       \<and> (\<exists>r. Status r = ''failed'' \<and> ErrorMessage r = msg \<and> JobID r = ProcessingJob.JobID job
              \<and> putItems (effects (snd (processMessage env w body))) =
                  putItems (effects w) @ (if marshalMap env r = None then [r] else [])
              \<and> (case fst (saveResult env w r) of
                    None \<Rightarrow> True
                  | Some e \<Rightarrow> Printf ''Failed to save error result: %v\<newline>'' [S e]
                               \<in> set (effects (snd (processMessage env w body)))))"
proof -
  let ?w1 = "fetching w job"
  let ?sf = "saveFailedResult env ?w1 job (now env (ticks w)) msg"
  obtain es where pm: "processMessage env w body = (Some msg, (snd ?sf)\<lparr>effects := effects (snd ?sf) @ es\<rparr>)"
    and es: "putItems es = []"
    using processMessage_job_failure [OF assms] by blast
  obtain r es' where r: "r = failedResult job (now env (ticks w)) (now env (ticks ?w1))
        (now env (Suc (ticks ?w1))) (now env (Suc (Suc (ticks ?w1)))) msg"
    and eff: "effects (snd ?sf) =
         effects ?w1 @ (if marshalMap env r = None then [DDBPutItem r (putItem env r)] else [])
           @ (case fst (saveResult env ?w1 r) of
                Some e \<Rightarrow> [Printf ''Failed to save error result: %v\<newline>'' [S e]] | None \<Rightarrow> [])
           @ es'"
    and es': "putItems es' = []"
    using saveFailedResult_effects [where env = env and w = ?w1 and job = job
        and ?t0.0 = "now env (ticks w)" and msg = msg] by blast
  have fields: "Status r = ''failed''" "ErrorMessage r = msg" "JobID r = ProcessingJob.JobID job"
    by (simp_all add: r failedResult_def)
  have same: "fst (saveResult env ?w1 r) = fst (saveResult env w r)"
    by (simp add: saveResult_fst)
  have puts: "putItems (effects (snd (processMessage env w body))) =
                  putItems (effects w) @ (if marshalMap env r = None then [r] else [])"
    by (simp add: pm eff es es' split: option.splits)
  have logged: "(case fst (saveResult env w r) of
                    None \<Rightarrow> True
                  | Some e \<Rightarrow> Printf ''Failed to save error result: %v\<newline>'' [S e]
                               \<in> set (effects (snd (processMessage env w body))))"
    by (simp add: pm eff same [symmetric] split: option.splits)
  show ?thesis
    using fields puts logged by (auto simp: pm)
qed

theorem job_failure_recorded_and_propagated_witness:
  "unmarshalJob scenario_env missing_body = Inr missing_job
   \<and> jobFailure scenario_env missing_job ''failed to get S3 object: NoSuchKey''
   \<and> fst (processMessage scenario_env world0 missing_body) = Some ''failed to get S3 object: NoSuchKey''
   \<and> map Status (putItems (effects (snd (processMessage scenario_env world0 missing_body)))) = [''failed'']
   \<and> map ErrorMessage (putItems (effects (snd (processMessage scenario_env world0 missing_body))))
       = [''failed to get S3 object: NoSuchKey'']"
proof -
  have h1: "unmarshalJob scenario_env missing_body = Inr missing_job"
    by (simp add: scenario_env_def scenario_unmarshalJob_def missing_body_def job_body_def)
  have h2: "jobFailure scenario_env missing_job ''failed to get S3 object: NoSuchKey''"
    by (simp add: jobFailure_def scenario_env_def scenario_getObject_def missing_job_def)
  have m: "marshalMap scenario_env r = None" for r
    by (simp add: scenario_env_def)
  from job_failure_recorded_and_propagated [OF h1 h2, of world0]
  have "fst (processMessage scenario_env world0 missing_body) = Some ''failed to get S3 object: NoSuchKey''"
    and "\<exists>r. Status r = ''failed'' \<and> ErrorMessage r = ''failed to get S3 object: NoSuchKey''
           \<and> putItems (effects (snd (processMessage scenario_env world0 missing_body))) = [r]"
    by (auto simp: m world0_def)
  then show ?thesis
    using h1 h2 by auto
qed

text \<open>
  C1, as the code has it. On an object of three lines, an INFO line with response time 10,
  an ERROR line with response time 500 and the line \<open>not-json\<close> that the decoder rejects,
  the worker builds a result with status \<open>completed\<close>, 3 lines, 1 error, 1 info, average
  response time 255 and maximum 500, and with 1 warning: the rejected line is counted as a
  warning. This result is what \<open>PutItem\<close> receives.
\<close>

theorem scenario_result:
  assumes "unmarshalJob env body = Inr job"
    and "getObject env (Bucket job) (Key job) = Inr \<lparr>tokens = [l1, l2, ''not-json''], scanErr = None\<rparr>"
    and "l1 \<noteq> []" "l2 \<noteq> []"
    and "unmarshalEntry env l1 = Some e1" "Level e1 = ''INFO''" "ResponseTimeMs e1 = 10"
    and "unmarshalEntry env l2 = Some e2" "Level e2 = ''ERROR''" "ResponseTimeMs e2 = 500"
    and "unmarshalEntry env ''not-json'' = None"
  shows "\<exists>r. putItems (effects (snd (processMessage env w body))) =
               putItems (effects w) @ (if marshalMap env r = None then [r] else [])
           \<and> Status r = ''completed'' \<and> LineCount r = 3
           \<and> ProcessingResult.ErrorCount r = 1 \<and> ProcessingResult.InfoCount r = 1
           \<and> ProcessingResult.WarnCount r = 1
           \<and> AvgResponseTimeMs r = 255 \<and> MaxResponseTimeMs r = 500"
proof -
  let ?reader = "\<lparr>tokens = [l1, l2, ''not-json''], scanErr = None\<rparr>"
  define agg where "agg = snd (Parse (unmarshalEntry env) NewLogAggregation ?reader)"
  define r where "r = completedResult job agg agg (now env (ticks w)) (now env (Suc (ticks w)))
               (now env (Suc (Suc (ticks w)))) (now env (Suc (Suc (Suc (ticks w)))))"
  note a = scenario_aggregation [OF assms(3-11) agg_def]
  have "putItems (effects (snd (processMessage env w body))) =
               putItems (effects w) @ (if marshalMap env r = None then [r] else [])"
    by (rule processMessage_parsed(2) [OF assms(1,2) _ agg_def r_def]) simp
  moreover have "Status r = ''completed''" "LineCount r = 3"
    "ProcessingResult.ErrorCount r = 1" "ProcessingResult.InfoCount r = 1"
    "ProcessingResult.WarnCount r = 1" "AvgResponseTimeMs r = 255" "MaxResponseTimeMs r = 500"
    by (simp_all add: r_def completedResult_def a)
  ultimately show ?thesis by blast
qed

theorem scenario_result_witness:
  "unmarshalJob scenario_env job_body = Inr scenario_job
   \<and> getObject scenario_env (Bucket scenario_job) (Key scenario_job)
       = Inr \<lparr>tokens = [line_info, line_error, ''not-json''], scanErr = None\<rparr>
   \<and> unmarshalEntry scenario_env line_info = Some entry_info
   \<and> unmarshalEntry scenario_env line_error = Some entry_error
   \<and> unmarshalEntry scenario_env ''not-json'' = None
   \<and> map Status (putItems (effects (snd (processMessage scenario_env world0 job_body)))) = [''completed'']
   \<and> map LineCount (putItems (effects (snd (processMessage scenario_env world0 job_body)))) = [3]
   \<and> map ProcessingResult.WarnCount (putItems (effects (snd (processMessage scenario_env world0 job_body)))) = [1]
   \<and> map AvgResponseTimeMs (putItems (effects (snd (processMessage scenario_env world0 job_body)))) = [255]"
proof -
  note h = scenario_env_scenario
  from scenario_result [OF h(1-11), of world0]
  obtain r where "putItems (effects (snd (processMessage scenario_env world0 job_body))) = [r]"
    "Status r = ''completed''" "LineCount r = 3" "ProcessingResult.WarnCount r = 1"
    "AvgResponseTimeMs r = 255"
    by (auto simp: h(12) world0_def)
  then show ?thesis
    using h(1,2,5,8,11) by simp
qed

text \<open>
  C1 as the specification states it, with \<open>warn_count\<close> 0, fails on the scenario: the
  completed result does not have 0 warnings.
\<close>

theorem scenario_warn_count_counterexample:
  "map Status (putItems (effects (snd (processMessage scenario_env world0 job_body)))) = [''completed'']
   \<and> map ProcessingResult.WarnCount
        (putItems (effects (snd (processMessage scenario_env world0 job_body)))) \<noteq> [0]"
  using scenario_puts by auto

text \<open>
  C4. Two deliveries of the same message, decoded to the same job and reading the same
  object, at different times and in different worlds, build two results that agree in
  every field but the four timing fields; in particular in the eight statistics.
\<close>

theorem redelivery_same_statistics:
  assumes "unmarshalJob env1 body = Inr job" and "unmarshalJob env2 body = Inr job"
    and "unmarshalEntry env1 = unmarshalEntry env2"
    and "getObject env1 (Bucket job) (Key job) = Inr reader"
    and "getObject env2 (Bucket job) (Key job) = Inr reader"
  shows "\<exists>r1 r2.
           putItems (effects (snd (processMessage env1 w1 body))) =
             putItems (effects w1) @ (if marshalMap env1 r1 = None then [r1] else [])
         \<and> putItems (effects (snd (processMessage env2 w2 body))) =
             putItems (effects w2) @ (if marshalMap env2 r2 = None then [r2] else [])
         \<and> untimed r1 = untimed r2
         \<and> LineCount r1 = LineCount r2
         \<and> ProcessingResult.ErrorCount r1 = ProcessingResult.ErrorCount r2
         \<and> ProcessingResult.WarnCount r1 = ProcessingResult.WarnCount r2
         \<and> ProcessingResult.InfoCount r1 = ProcessingResult.InfoCount r2
         \<and> AvgResponseTimeMs r1 = AvgResponseTimeMs r2
         \<and> MaxResponseTimeMs r1 = MaxResponseTimeMs r2
         \<and> ProcessingResult.UniqueUsers r1 = ProcessingResult.UniqueUsers r2
         \<and> ProcessingResult.UniqueEndpoints r1 = ProcessingResult.UniqueEndpoints r2"
proof (cases "scanErr reader")
  case None
  define agg where "agg = snd (Parse (unmarshalEntry env1) NewLogAggregation reader)"
  have agg2: "agg = snd (Parse (unmarshalEntry env2) NewLogAggregation reader)"
    by (simp add: agg_def assms(3))
  define r1 where "r1 = completedResult job agg agg (now env1 (ticks w1)) (now env1 (Suc (ticks w1)))
               (now env1 (Suc (Suc (ticks w1)))) (now env1 (Suc (Suc (Suc (ticks w1)))))"
  define r2 where "r2 = completedResult job agg agg (now env2 (ticks w2)) (now env2 (Suc (ticks w2)))
               (now env2 (Suc (Suc (ticks w2)))) (now env2 (Suc (Suc (Suc (ticks w2)))))"
  have p1: "putItems (effects (snd (processMessage env1 w1 body))) =
             putItems (effects w1) @ (if marshalMap env1 r1 = None then [r1] else [])"
    by (rule processMessage_parsed(2) [OF assms(1,4) None agg_def r1_def])
  have p2: "putItems (effects (snd (processMessage env2 w2 body))) =
             putItems (effects w2) @ (if marshalMap env2 r2 = None then [r2] else [])"
    by (rule processMessage_parsed(2) [OF assms(2,5) None agg2 r2_def])
  have "untimed r1 = untimed r2"
    unfolding r1_def r2_def by (subst (1 2) untimed_completedResult) simp
  moreover have "LineCount r1 = LineCount r2
         \<and> ProcessingResult.ErrorCount r1 = ProcessingResult.ErrorCount r2
         \<and> ProcessingResult.WarnCount r1 = ProcessingResult.WarnCount r2
         \<and> ProcessingResult.InfoCount r1 = ProcessingResult.InfoCount r2
         \<and> AvgResponseTimeMs r1 = AvgResponseTimeMs r2
         \<and> MaxResponseTimeMs r1 = MaxResponseTimeMs r2
         \<and> ProcessingResult.UniqueUsers r1 = ProcessingResult.UniqueUsers r2
         \<and> ProcessingResult.UniqueEndpoints r1 = ProcessingResult.UniqueEndpoints r2"
    by (simp add: r1_def r2_def completedResult_def)
  ultimately show ?thesis
    using p1 p2 by blast
next
  case (Some err)
  let ?msg = "''failed to parse logs: '' @ ''error scanning file: '' @ err"
  have f1: "jobFailure env1 job ?msg" and f2: "jobFailure env2 job ?msg"
    by (simp_all add: jobFailure_def assms(4,5) Some)
  obtain t1 t2 t3 where p1: "putItems (effects (snd (processMessage env1 w1 body))) =
           putItems (effects w1)
             @ (if marshalMap env1 (failedResult job (now env1 (ticks w1)) t1 t2 t3 ?msg) = None
                then [failedResult job (now env1 (ticks w1)) t1 t2 t3 ?msg] else [])"
    using processMessage_job_failure_puts [OF assms(1) f1, of w1] by blast
  obtain u1 u2 u3 where p2: "putItems (effects (snd (processMessage env2 w2 body))) =
           putItems (effects w2)
             @ (if marshalMap env2 (failedResult job (now env2 (ticks w2)) u1 u2 u3 ?msg) = None
                then [failedResult job (now env2 (ticks w2)) u1 u2 u3 ?msg] else [])"
    using processMessage_job_failure_puts [OF assms(2) f2, of w2] by blast
  let ?r1 = "failedResult job (now env1 (ticks w1)) t1 t2 t3 ?msg"
  let ?r2 = "failedResult job (now env2 (ticks w2)) u1 u2 u3 ?msg"
  have "untimed ?r1 = untimed ?r2"
    by (subst (1 2) untimed_failedResult) simp
  moreover have "LineCount ?r1 = LineCount ?r2
         \<and> ProcessingResult.ErrorCount ?r1 = ProcessingResult.ErrorCount ?r2
         \<and> ProcessingResult.WarnCount ?r1 = ProcessingResult.WarnCount ?r2
         \<and> ProcessingResult.InfoCount ?r1 = ProcessingResult.InfoCount ?r2
         \<and> AvgResponseTimeMs ?r1 = AvgResponseTimeMs ?r2
         \<and> MaxResponseTimeMs ?r1 = MaxResponseTimeMs ?r2
         \<and> ProcessingResult.UniqueUsers ?r1 = ProcessingResult.UniqueUsers ?r2
         \<and> ProcessingResult.UniqueEndpoints ?r1 = ProcessingResult.UniqueEndpoints ?r2"
    by (simp add: failedResult_def)
  ultimately show ?thesis
    using p1 p2 by blast
qed

theorem redelivery_same_statistics_witness:
  "unmarshalJob scenario_env job_body = Inr scenario_job
   \<and> unmarshalJob later_env job_body = Inr scenario_job
   \<and> unmarshalEntry scenario_env = unmarshalEntry later_env
   \<and> getObject scenario_env (Bucket scenario_job) (Key scenario_job)
       = Inr \<lparr>tokens = [line_info, line_error, ''not-json''], scanErr = None\<rparr>
   \<and> getObject later_env (Bucket scenario_job) (Key scenario_job)
       = Inr \<lparr>tokens = [line_info, line_error, ''not-json''], scanErr = None\<rparr>
   \<and> map untimed (putItems (effects (snd (processMessage later_env
          (snd (processMessage scenario_env world0 job_body)) job_body))))
       = map untimed (putItems (effects (snd (processMessage scenario_env world0 job_body))))
         @ map untimed (putItems (effects (snd (processMessage scenario_env world0 job_body))))
   \<and> length (putItems (effects (snd (processMessage scenario_env world0 job_body)))) = 1"
proof -
  note h = scenario_env_scenario
  have h1: "unmarshalJob scenario_env job_body = Inr scenario_job" by (rule h(1))
  have h2: "unmarshalJob later_env job_body = Inr scenario_job" by (simp add: later_env_fields h(1))
  have h3: "unmarshalEntry scenario_env = unmarshalEntry later_env" by (simp add: later_env_fields)
  have h4: "getObject scenario_env (Bucket scenario_job) (Key scenario_job)
       = Inr \<lparr>tokens = [line_info, line_error, ''not-json''], scanErr = None\<rparr>" by (rule h(2))
  have h5: "getObject later_env (Bucket scenario_job) (Key scenario_job)
       = Inr \<lparr>tokens = [line_info, line_error, ''not-json''], scanErr = None\<rparr>"
    by (simp add: later_env_fields h(2))
  let ?W1 = "snd (processMessage scenario_env world0 job_body)"
  from redelivery_same_statistics [OF h1 h2 h3 h4 h5, of world0 ?W1]
  obtain r1 r2 where "putItems (effects ?W1) = [r1]"
    "putItems (effects (snd (processMessage later_env ?W1 job_body))) = putItems (effects ?W1) @ [r2]"
    "untimed r1 = untimed r2"
    by (auto simp: h(12) later_env_fields world0_def)
  then show ?thesis
    using h1 h2 h3 h4 h5 by simp
qed

text \<open>
  C10. When the messages before \<open>m\<close> succeed one after the other and \<open>m\<close> fails, the
  handler returns the error of \<open>m\<close>, and the world it leaves is the one that \<open>m\<close> left plus
  the printed error: whatever follows \<open>m\<close> in the batch is not processed.
\<close>

theorem worker_handler_stops_at_first_failure:
  assumes "worker_handler env w pre = (None, w1)"
    and "processMessage env w1 m = (Some err, w2)"
  shows "worker_handler env w (pre @ m # post) =
           (Some err, emit w2 (Printf ''Error processing message: %v\<newline>'' [S err]))"
  using assms by (simp add: worker_handler_append)

theorem worker_handler_stops_at_first_failure_witness:
  "worker_handler scenario_env world0 [job_body] = (None, snd (processMessage scenario_env world0 job_body))
   \<and> fst (processMessage scenario_env (snd (processMessage scenario_env world0 job_body)) missing_body)
       = Some ''failed to get S3 object: NoSuchKey''
   \<and> fst (worker_handler scenario_env world0 [job_body, missing_body, job_body])
       = Some ''failed to get S3 object: NoSuchKey''
   \<and> map Status (putItems (effects (snd
        (worker_handler scenario_env world0 [job_body, missing_body, job_body]))))
       = [''completed'', ''failed'']"
proof -
  note h = scenario_env_scenario
  let ?W1 = "snd (processMessage scenario_env world0 job_body)"
  let ?W2 = "snd (processMessage scenario_env ?W1 missing_body)"
  let ?err = "''failed to get S3 object: NoSuchKey''"
  have ok: "fst (processMessage scenario_env world0 job_body) = None"
    by (subst processMessage_parsed(1) [OF h(1,2) _ refl refl])
       (simp_all add: saveResult_fst scenario_env_def)
  then have a1: "worker_handler scenario_env world0 [job_body] = (None, ?W1)"
    by (cases "processMessage scenario_env world0 job_body") simp
  have j: "unmarshalJob scenario_env missing_body = Inr missing_job"
    by (simp add: scenario_env_def scenario_unmarshalJob_def missing_body_def job_body_def)
  have g: "getObject scenario_env (Bucket missing_job) (Key missing_job) = Inl ''NoSuchKey''"
    by (simp add: scenario_env_def scenario_getObject_def missing_job_def)
  have f: "fst (processMessage scenario_env ?W1 missing_body) = Some ?err"
    by (simp add: processMessage_fetch_failure [OF j g] saveFailedResult_fst)
  then have a2: "processMessage scenario_env ?W1 missing_body = (Some ?err, ?W2)"
    by (simp add: prod_eq_iff)
  have run: "worker_handler scenario_env world0 ([job_body] @ missing_body # [job_body]) =
      (Some ?err, emit ?W2 (Printf ''Error processing message: %v\<newline>'' [S ?err]))"
    by (rule worker_handler_stops_at_first_failure [OF a1 a2])
  obtain r1 where r1: "putItems (effects ?W1) = [r1]" "Status r1 = ''completed''"
    using scenario_puts by blast
  have jf: "jobFailure scenario_env missing_job ?err"
    by (simp add: jobFailure_def g)
  obtain t1 t2 t3 where "putItems (effects ?W2) = putItems (effects ?W1)
       @ [failedResult missing_job (now scenario_env (ticks ?W1)) t1 t2 t3 ?err]"
    using processMessage_job_failure_puts [OF j jf, of ?W1] by (auto simp: h(12))
  then have "map Status (putItems (effects ?W2)) = [''completed'', ''failed'']"
    by (simp add: r1 failedResult_def)
  then show ?thesis
    using a1 f run by simp
qed

section \<open>Properties of the trigger\<close>

subsection \<open>The keys of the examples\<close>

lemma good_key_suffix: "HasSuffix (ToLower ''logs/test_42_20240101T000000.json'') ''.json''"
  by code_simp
lemma upper_key_suffix: "HasSuffix (ToLower ''logs/test_42_20240101T000000.JSON'') ''.json''"
  by code_simp
lemma good_key_parts: "Split ''logs/test_42_20240101T000000.json'' (CHR ''_'') = [''logs/test'', ''42'', ''20240101T000000.json'']"
  by simp
lemma readme_key_suffix: "\<not> HasSuffix (ToLower ''logs/readme.txt'') ''.json''"
  by code_simp
lemma bad_key_parts: "Split ''logs/test_bad.json'' (CHR ''_'') = [''logs/test'', ''bad.json'']"
  by simp
lemma bad_key_suffix: "HasSuffix (ToLower ''logs/test_bad.json'') ''.json''"
  by code_simp

subsection \<open>Effects of the helpers on the queue\<close>

lemma sentMessages_append [simp]: "sentMessages (xs @ ys) = sentMessages xs @ sentMessages ys"
  by (induction xs rule: sentMessages.induct) simp_all

lemma putMetricBlocks_sent:
  "sentMessages (effects (snd (putMetricBlocks env w t ms))) = sentMessages (effects w)"
proof (induction env w t ms rule: putMetricBlocks.induct)
  case (1 env w timestamp data)
  show ?case
  proof (cases "data = []")
    case True
    then show ?thesis by (subst putMetricBlocks.simps) simp
  next
    case ne: False
    let ?w = "emit w (CWPutMetricData timestamp (take 1000 data) (putMetricData env (take 1000 data)))"
    show ?thesis
    proof (cases "putMetricData env (take 1000 data)")
      case None
      from "1.IH" [OF ne refl refl refl None]
      have "sentMessages (effects (snd (putMetricBlocks env ?w timestamp (drop 1000 data))))
             = sentMessages (effects ?w)" .
      then show ?thesis
        using ne None by (subst putMetricBlocks.simps) (simp add: Let_def)
    next
      case (Some e)
      then show ?thesis
        using ne by (subst putMetricBlocks.simps) (simp add: Let_def)
    qed
  qed
qed

lemma EmitBatch_sent:
  "sentMessages (effects (snd (EmitBatch env w ms))) = sentMessages (effects w)"
proof (cases "length ms = 0")
  case True
  then show ?thesis by (simp add: EmitBatch_def)
next
  case False
  then show ?thesis
    using putMetricBlocks_sent [of env "w\<lparr>ticks := Suc (ticks w)\<rparr>" "now env (ticks w)" ms]
    by (simp add: EmitBatch_def timeNow_def)
qed

subsection \<open>The three ways through \<open>processRecord\<close>\<close>

lemma processRecord_wrong_suffix:
  assumes "\<not> HasSuffix (ToLower (ObjectKey record)) ''.json''"
  shows "processRecord env w record =
           (Returned None,
            emit (w\<lparr>ticks := Suc (ticks w)\<rparr>)
              (Printf ''Skipping non-JSON file: %s\<newline>'' [S (ObjectKey record)]))"
  using assms by (simp add: processRecord_def timeNow_def Let_def)

lemma processRecord_no_convention:
  assumes "HasSuffix (ToLower (ObjectKey record)) ''.json''"
    and "\<not> (3 \<le> length (Split (ObjectKey record) (CHR ''_''))
            \<and> Split (ObjectKey record) (CHR ''_'') ! 0 = ''logs/test'')"
  shows "processRecord env w record =
           (Returned (Some (case headObject env (BucketName record) (ObjectKey record) of
                Inl err \<Rightarrow> ''failed to head object '' @ BucketName record @ ''/''
                             @ ObjectKey record @ '': '' @ err
              | Inr headResp \<Rightarrow> ''could not extract test_id from key: '' @ ObjectKey record)),
            emit (w\<lparr>ticks := Suc (ticks w)\<rparr>) (S3HeadObject (BucketName record) (ObjectKey record)))"
  using assms by (auto simp: processRecord_def timeNow_def Let_def split: sum.splits)

lemma Split_nonempty: "Split s sep \<noteq> []"
  by (induction s) (auto split: list.splits)

lemma Split_first_piece:
  "2 \<le> length (Split s sep) \<Longrightarrow>
     take (Suc (length (hd (Split s sep)))) s = hd (Split s sep) @ [sep]"
proof (induction s)
  case Nil
  then show ?case by simp
next
  case (Cons c s)
  show ?case
  proof (cases "c = sep")
    case True
    then show ?thesis by simp
  next
    case False
    obtain p ps where sp: "Split s sep = p # ps"
      using Split_nonempty [of s sep] by (cases "Split s sep") auto
    with Cons.prems False have "2 \<le> length (Split s sep)" by simp
    from Cons.IH [OF this] show ?thesis
      using False sp by simp
  qed
qed

lemma wrong_prefix_no_convention:
  assumes "take 10 key \<noteq> ''logs/test_''"
  shows "\<not> (3 \<le> length (Split key (CHR ''_'')) \<and> Split key (CHR ''_'') ! 0 = ''logs/test'')"
proof
  assume a: "3 \<le> length (Split key (CHR ''_'')) \<and> Split key (CHR ''_'') ! 0 = ''logs/test''"
  then have "hd (Split key (CHR ''_'')) = ''logs/test''"
    using Split_nonempty [of key "CHR ''_''"] by (simp add: hd_conv_nth)
  moreover have "2 \<le> length (Split key (CHR ''_''))" using a by simp
  ultimately have "take 10 key = ''logs/test_''"
    using Split_first_piece [of key "CHR ''_''"] by (simp add: eval_nat_numeral)
  with assms show False by simp
qed

lemma processRecord_convention:
  assumes "HasSuffix (ToLower (ObjectKey record)) ''.json''"
    and "3 \<le> length (Split (ObjectKey record) (CHR ''_''))"
    and "Split (ObjectKey record) (CHR ''_'') ! 0 = ''logs/test''"
    and "headObject env (BucketName record) (ObjectKey record) = Inr headResp"
    and "ContentLength headResp = Some n"
    and "job = \<lparr>ProcessingJob.JobID = Split (ObjectKey record) (CHR ''_'') ! 1,
                  Bucket = BucketName record, Key = ObjectKey record, Size = n,
                  ContentType = ToString (ContentType headResp),
                  ReceivedAt = EventTime record, ValidatedAt = now env (Suc (ticks w))\<rparr>"
  shows "case marshalJob env job of
           Inl e \<Rightarrow>
             fst (processRecord env w record) = Returned (Some (''failed to marshal job: '' @ e))
             \<and> sentMessages (effects (snd (processRecord env w record))) = sentMessages (effects w)
         | Inr jobBytes \<Rightarrow>
             fst (processRecord env w record) =
               Returned (map_option ((@) ''failed to send SQS message: '')
                           (sendMessage env jobBytes (ProcessingJob.JobID job)))
             \<and> sentMessages (effects (snd (processRecord env w record))) =
                 sentMessages (effects w) @ [jobBytes]
             \<and> SQSSendMessage jobBytes (ProcessingJob.JobID job)
                   (sendMessage env jobBytes (ProcessingJob.JobID job))
                 \<in> set (effects (snd (processRecord env w record)))"
proof (cases "marshalJob env job")
  case (Inl e)
  then show ?thesis
    using assms by (simp add: processRecord_def timeNow_def Let_def)
next
  case (Inr jobBytes)
  show ?thesis
  proof (cases "sendMessage env jobBytes (ProcessingJob.JobID job)")
    case (Some e)
    then show ?thesis
      using assms Inr by (simp add: processRecord_def timeNow_def Let_def)
  next
    case None
    define w4 where "w4 = (emit (emit (emit (w\<lparr>ticks := Suc (ticks w)\<rparr>)
          (S3HeadObject (BucketName record) (ObjectKey record)))
          (Printf ''Extracted test_id '%s' from key\<newline>'' [S (ProcessingJob.JobID job)]))
          (SQSSendMessage jobBytes (ProcessingJob.JobID job) None))\<lparr>ticks := Suc (Suc (Suc (ticks w)))\<rparr>"
    define lat where "lat = float64_of_int (sint (Milliseconds (Duration (now env (ticks w)) (now env (Suc (Suc (ticks w)))))))"
    define ms where "ms = [(''TriggerValidationLatencyMs'', LatencyMs lat),
         (''TriggerFileSizeBytes'', \<lparr>Value = float64_of_int (sint (Size job)), Unit = ''Bytes''\<rparr>),
         (''TriggerInvocations'', Count 1)]"
    define w5 where "w5 = (if metricsCollector env then snd (EmitBatch env w4 ms) else w4)"
    have pr: "processRecord env w record =
        (Returned None, emit w5 (Printf ''Queued job %s for file %s/%s (%.2fms)\<newline>''
           [S (ProcessingJob.JobID job), S (BucketName record), S (ObjectKey record), F lat]))"
      using assms Inr None
      by (simp add: processRecord_def timeNow_def Let_def w4_def w5_def ms_def lat_def emit_def)
    have sent4: "sentMessages (effects w4) = sentMessages (effects w) @ [jobBytes]"
      by (simp add: w4_def)
    have sent5: "sentMessages (effects w5) = sentMessages (effects w) @ [jobBytes]"
      by (simp add: w5_def EmitBatch_sent sent4)
    have "SQSSendMessage jobBytes (ProcessingJob.JobID job) None \<in> set (effects w4)"
      by (simp add: w4_def)
    moreover have "set (effects w4) \<subseteq> set (effects w5)"
      using EmitBatch_effects [of env w4 ms] by (auto simp: w5_def)
    ultimately have mem: "SQSSendMessage jobBytes (ProcessingJob.JobID job) None \<in> set (effects w5)"
      by blast
    show ?thesis
      using Inr None by (simp add: pr sent5 mem)
  qed
qed

section \<open>The claims about the trigger\<close>

lemma stray_key_facts:
  "HasSuffix (ToLower ''tmp/test_42_20240101T000000.json'') ''.json''"
  "take 10 ''tmp/test_42_20240101T000000.json'' \<noteq> ''logs/test_''"
  by code_simp+

text \<open>
  C3, as the code has it. A key without the suffix \<open>.json\<close> (in any letter case) is skipped
  silently: \<open>processRecord\<close> returns \<open>nil\<close> after printing one line, with no call to
  \<open>HeadObject\<close>, no job and no message. A key with the suffix that does not begin with
  \<open>logs/test_\<close> is not skipped: after \<open>HeadObject\<close> the notification fails with an
  error, and no message is sent.
\<close>

theorem nonmatching_key_outcome:
  "(\<not> HasSuffix (ToLower (ObjectKey record)) ''.json'' \<longrightarrow>
      processRecord env w record =
        (Returned None,
         emit (w\<lparr>ticks := Suc (ticks w)\<rparr>)
           (Printf ''Skipping non-JSON file: %s\<newline>'' [S (ObjectKey record)])))
   \<and> (HasSuffix (ToLower (ObjectKey record)) ''.json''
        \<and> take 10 (ObjectKey record) \<noteq> ''logs/test_'' \<longrightarrow>
      fst (processRecord env w record) =
        Returned (Some (case headObject env (BucketName record) (ObjectKey record) of
            Inl err \<Rightarrow> ''failed to head object '' @ BucketName record @ ''/''
                         @ ObjectKey record @ '': '' @ err
          | Inr headResp \<Rightarrow> ''could not extract test_id from key: '' @ ObjectKey record))
      \<and> sentMessages (effects (snd (processRecord env w record))) = sentMessages (effects w))"
proof (intro conjI impI)
  assume "\<not> HasSuffix (ToLower (ObjectKey record)) ''.json''"
  then show "processRecord env w record =
        (Returned None,
         emit (w\<lparr>ticks := Suc (ticks w)\<rparr>)
           (Printf ''Skipping non-JSON file: %s\<newline>'' [S (ObjectKey record)]))"
    by (rule processRecord_wrong_suffix)
next
  assume a: "HasSuffix (ToLower (ObjectKey record)) ''.json''
        \<and> take 10 (ObjectKey record) \<noteq> ''logs/test_''"
  note pr = processRecord_no_convention [OF conjunct1 [OF a]
      wrong_prefix_no_convention [OF conjunct2 [OF a]], of env w]
  show "fst (processRecord env w record) =
        Returned (Some (case headObject env (BucketName record) (ObjectKey record) of
            Inl err \<Rightarrow> ''failed to head object '' @ BucketName record @ ''/''
                         @ ObjectKey record @ '': '' @ err
          | Inr headResp \<Rightarrow> ''could not extract test_id from key: '' @ ObjectKey record))"
    by (simp add: pr)
  show "sentMessages (effects (snd (processRecord env w record))) = sentMessages (effects w)"
    by (simp add: pr)
qed

theorem nonmatching_key_outcome_witness:
  "\<not> HasSuffix (ToLower ''logs/readme.txt'') ''.json''
   \<and> processRecord scenario_env world0
        \<lparr>BucketName = ''uploads'', ObjectKey = ''logs/readme.txt'', EventTime = 0\<rparr>
       = (Returned None,
          \<lparr>effects = [Printf ''Skipping non-JSON file: %s\<newline>'' [S ''logs/readme.txt'']],
           ticks = 1\<rparr>)
   \<and> HasSuffix (ToLower ''tmp/test_42_20240101T000000.json'') ''.json''
   \<and> take 10 ''tmp/test_42_20240101T000000.json'' \<noteq> ''logs/test_''
   \<and> fst (processRecord scenario_env world0
        \<lparr>BucketName = ''uploads'', ObjectKey = ''tmp/test_42_20240101T000000.json'', EventTime = 0\<rparr>)
       = Returned (Some ''could not extract test_id from key: tmp/test_42_20240101T000000.json'')
   \<and> sentMessages (effects (snd (processRecord scenario_env world0
        \<lparr>BucketName = ''uploads'', ObjectKey = ''tmp/test_42_20240101T000000.json'', EventTime = 0\<rparr>)))
       = []"
proof -
  let ?readme = "\<lparr>BucketName = ''uploads'', ObjectKey = ''logs/readme.txt'', EventTime = 0\<rparr>"
  let ?stray = "\<lparr>BucketName = ''uploads'', ObjectKey = ''tmp/test_42_20240101T000000.json'',
                  EventTime = 0\<rparr>"
  have h: "headObject scenario_env ''uploads'' k
             = Inr \<lparr>ContentLength = Some 100, ContentType = Some ''application/json''\<rparr>" for k
    by (simp add: scenario_env_def scenario_headObject_def)
  from nonmatching_key_outcome [of ?readme scenario_env world0]
  have 1: "processRecord scenario_env world0 ?readme
       = (Returned None,
          \<lparr>effects = [Printf ''Skipping non-JSON file: %s\<newline>'' [S ''logs/readme.txt'']],
           ticks = 1\<rparr>)"
    using readme_key_suffix by (simp add: world0_def emit_def)
  from nonmatching_key_outcome [of ?stray scenario_env world0]
  have 2: "fst (processRecord scenario_env world0 ?stray)
       = Returned (Some ''could not extract test_id from key: tmp/test_42_20240101T000000.json'')"
    and 3: "sentMessages (effects (snd (processRecord scenario_env world0 ?stray))) = []"
    using stray_key_facts by (simp_all add: h world0_def)
  show ?thesis
    using 1 2 3 readme_key_suffix stray_key_facts by simp
qed

text \<open>
  C3 as the specification states it fails on a \<open>.json\<close> key outside \<open>logs/\<close>: the
  validator reports an error for it.
\<close>

theorem wrong_prefix_counterexample:
  "fst (processRecord scenario_env world0
        \<lparr>BucketName = ''uploads'', ObjectKey = ''tmp/test_42_20240101T000000.json'', EventTime = 0\<rparr>)
     = Returned (Some ''could not extract test_id from key: tmp/test_42_20240101T000000.json'')
   \<and> fst (processRecord scenario_env world0
        \<lparr>BucketName = ''uploads'', ObjectKey = ''tmp/test_42_20240101T000000.json'', EventTime = 0\<rparr>)
     \<noteq> Returned None"
proof -
  let ?stray = "\<lparr>BucketName = ''uploads'', ObjectKey = ''tmp/test_42_20240101T000000.json'',
                  EventTime = 0\<rparr>"
  have h: "headObject scenario_env ''uploads'' k
             = Inr \<lparr>ContentLength = Some 100, ContentType = Some ''application/json''\<rparr>" for k
    by (simp add: scenario_env_def scenario_headObject_def)
  have "\<not> (3 \<le> length (Split (ObjectKey ?stray) (CHR ''_''))
            \<and> Split (ObjectKey ?stray) (CHR ''_'') ! 0 = ''logs/test'')"
    by simp
  from processRecord_no_convention [OF _ this, of scenario_env world0] stray_key_facts(1)
  show ?thesis
    by (simp add: h)
qed

text \<open>
  C7. When \<open>HeadObject\<close> answers with a length and the job marshals, the key
  \<open>logs/test_42_20240101T000000.json\<close> yields the job with \<open>JobID\<close> 42, whose bytes are
  sent to the queue with the attribute 42, and the call fails only if the send does. The
  key \<open>logs/readme.txt\<close> is skipped: \<open>nil\<close>, one printed line, nothing else. The key
  \<open>logs/test_bad.json\<close> has two pieces only: the call returns an error and sends nothing.
\<close>

theorem key_convention_examples:
  assumes "headObject env b ''logs/test_42_20240101T000000.json'' = Inr headResp"
    and "ContentLength headResp = Some n"
    and "marshalJob env
           \<lparr>ProcessingJob.JobID = ''42'', Bucket = b, Key = ''logs/test_42_20240101T000000.json'',
            Size = n, ContentType = ToString (ContentType headResp), ReceivedAt = t,
            ValidatedAt = now env (Suc (ticks w))\<rparr> = Inr jobBytes"
  shows "sentMessages (effects (snd (processRecord env w
            \<lparr>BucketName = b, ObjectKey = ''logs/test_42_20240101T000000.json'', EventTime = t\<rparr>)))
           = sentMessages (effects w) @ [jobBytes]
       \<and> SQSSendMessage jobBytes ''42'' (sendMessage env jobBytes ''42'')
           \<in> set (effects (snd (processRecord env w
                \<lparr>BucketName = b, ObjectKey = ''logs/test_42_20240101T000000.json'', EventTime = t\<rparr>)))
       \<and> fst (processRecord env w
            \<lparr>BucketName = b, ObjectKey = ''logs/test_42_20240101T000000.json'', EventTime = t\<rparr>)
           = Returned (map_option ((@) ''failed to send SQS message: '')
                         (sendMessage env jobBytes ''42''))
       \<and> processRecord env w \<lparr>BucketName = b, ObjectKey = ''logs/readme.txt'', EventTime = t\<rparr>
           = (Returned None,
              emit (w\<lparr>ticks := Suc (ticks w)\<rparr>)
                (Printf ''Skipping non-JSON file: %s\<newline>'' [S ''logs/readme.txt'']))
       \<and> (\<exists>err. fst (processRecord env w
              \<lparr>BucketName = b, ObjectKey = ''logs/test_bad.json'', EventTime = t\<rparr>)
             = Returned (Some err))
       \<and> sentMessages (effects (snd (processRecord env w
            \<lparr>BucketName = b, ObjectKey = ''logs/test_bad.json'', EventTime = t\<rparr>)))
           = sentMessages (effects w)"
proof -
  let ?good = "\<lparr>BucketName = b, ObjectKey = ''logs/test_42_20240101T000000.json'', EventTime = t\<rparr>"
  let ?readme = "\<lparr>BucketName = b, ObjectKey = ''logs/readme.txt'', EventTime = t\<rparr>"
  let ?bad = "\<lparr>BucketName = b, ObjectKey = ''logs/test_bad.json'', EventTime = t\<rparr>"
  let ?job = "\<lparr>ProcessingJob.JobID = ''42'', Bucket = b, Key = ''logs/test_42_20240101T000000.json'',
            Size = n, ContentType = ToString (ContentType headResp), ReceivedAt = t,
            ValidatedAt = now env (Suc (ticks w))\<rparr>"
  have "case marshalJob env ?job of
           Inl e \<Rightarrow>
             fst (processRecord env w ?good) = Returned (Some (''failed to marshal job: '' @ e))
             \<and> sentMessages (effects (snd (processRecord env w ?good))) = sentMessages (effects w)
         | Inr jobBytes \<Rightarrow>
             fst (processRecord env w ?good) =
               Returned (map_option ((@) ''failed to send SQS message: '')
                           (sendMessage env jobBytes (ProcessingJob.JobID ?job)))
             \<and> sentMessages (effects (snd (processRecord env w ?good))) =
                 sentMessages (effects w) @ [jobBytes]
             \<and> SQSSendMessage jobBytes (ProcessingJob.JobID ?job)
                   (sendMessage env jobBytes (ProcessingJob.JobID ?job))
                 \<in> set (effects (snd (processRecord env w ?good)))"
    by (rule processRecord_convention [where headResp = headResp and n = n])
       (simp_all add: good_key_suffix good_key_parts assms(1,2))
  then have good: "fst (processRecord env w ?good) =
               Returned (map_option ((@) ''failed to send SQS message: '')
                           (sendMessage env jobBytes ''42''))"
      "sentMessages (effects (snd (processRecord env w ?good))) = sentMessages (effects w) @ [jobBytes]"
      "SQSSendMessage jobBytes ''42'' (sendMessage env jobBytes ''42'')
                 \<in> set (effects (snd (processRecord env w ?good)))"
    by (simp_all add: assms(3))
  have readme: "processRecord env w ?readme
           = (Returned None,
              emit (w\<lparr>ticks := Suc (ticks w)\<rparr>)
                (Printf ''Skipping non-JSON file: %s\<newline>'' [S ''logs/readme.txt'']))"
    using processRecord_wrong_suffix [of ?readme env w] readme_key_suffix by simp
  have "\<not> (3 \<le> length (Split (ObjectKey ?bad) (CHR ''_''))
            \<and> Split (ObjectKey ?bad) (CHR ''_'') ! 0 = ''logs/test'')"
    by simp
  from processRecord_no_convention [OF _ this, of env w] bad_key_suffix
  have bad: "\<exists>err. fst (processRecord env w ?bad) = Returned (Some err)"
    "sentMessages (effects (snd (processRecord env w ?bad))) = sentMessages (effects w)"
    by simp_all
  show ?thesis
    using good readme bad by simp
qed

theorem key_convention_examples_witness:
  "headObject scenario_env ''uploads'' ''logs/test_42_20240101T000000.json''
     = Inr \<lparr>ContentLength = Some 100, ContentType = Some ''application/json''\<rparr>
   \<and> sentMessages (effects (snd (processRecord scenario_env world0
        \<lparr>BucketName = ''uploads'', ObjectKey = ''logs/test_42_20240101T000000.json'', EventTime = 0\<rparr>)))
       = [''{job_id:42}'']
   \<and> fst (processRecord scenario_env world0
        \<lparr>BucketName = ''uploads'', ObjectKey = ''logs/test_42_20240101T000000.json'', EventTime = 0\<rparr>)
       = Returned None
   \<and> fst (processRecord scenario_env world0
        \<lparr>BucketName = ''uploads'', ObjectKey = ''logs/readme.txt'', EventTime = 0\<rparr>)
       = Returned None"
proof -
  have h1: "headObject scenario_env ''uploads'' ''logs/test_42_20240101T000000.json''
     = Inr \<lparr>ContentLength = Some 100, ContentType = Some ''application/json''\<rparr>"
    by (simp add: scenario_env_def scenario_headObject_def)
  have h2: "ContentLength \<lparr>ContentLength = Some 100, ContentType = Some ''application/json''\<rparr>
     = Some 100"
    by simp
  have h3: "marshalJob scenario_env
           \<lparr>ProcessingJob.JobID = ''42'', Bucket = ''uploads'',
            Key = ''logs/test_42_20240101T000000.json'',
            Size = 100, ContentType = ToString (ContentType
              \<lparr>ContentLength = Some 100, ContentType = Some ''application/json''\<rparr>),
            ReceivedAt = 0, ValidatedAt = now scenario_env (Suc (ticks world0))\<rparr>
        = Inr ''{job_id:42}''"
    by (simp add: scenario_env_def)
  have s: "sendMessage scenario_env body jobID = None" for body jobID
    by (simp add: scenario_env_def)
  show ?thesis
    using h1 key_convention_examples [OF h1 h2 h3] by (simp add: s world0_def)
qed

end
